theory Spec2Isabelle
  imports Main "HOL-Library.Monad_Syntax" "HOL-Library.Word"
begin

section \<open>Characters and C strings\<close>

text \<open>
  A C string is modelled by the list of its bytes before the terminating NUL.
  A pointer into a buffer is modelled by the list of the bytes from the pointer
  up to (not including) the buffer's terminating NUL; reading at the position of
  the terminator yields NUL.  The source never reads behind the terminator.
\<close>

abbreviation NUL :: char where "NUL \<equiv> CHR 0x00"
abbreviation LF :: char where "LF \<equiv> CHR 0x0A"
abbreviation CR :: char where "CR \<equiv> CHR 0x0D"
abbreviation SPC :: char where "SPC \<equiv> CHR 0x20"
abbreviation DQUOTE :: char where "DQUOTE \<equiv> CHR 0x22"
abbreviation HASH :: char where "HASH \<equiv> CHR 0x23"
abbreviation EQUALS :: char where "EQUALS \<equiv> CHR 0x3D"
abbreviation BSLASH :: char where "BSLASH \<equiv> CHR 0x5C"

definition rd :: "string \<Rightarrow> nat \<Rightarrow> char" where
  "rd str i = (if i < length str then str ! i else NUL)"

section \<open>Escaping codec\<close>

text \<open>
  \<^verbatim>\<open>slashdup\<close>: every backslash and double quote gets a backslash in front of it;
  a line feed or carriage return is stored as a blank.
\<close>

fun slashdup :: "string \<Rightarrow> string" where
  "slashdup [] = []"
| "slashdup (c # cs) =
     (if c = BSLASH \<or> c = DQUOTE then [BSLASH] else [])
     @ [if c = LF \<or> c = CR then SPC else c]
     @ slashdup cs"

text \<open>
  \<^verbatim>\<open>deslashndup\<close> takes its length as a \<^verbatim>\<open>guint16\<close>, and its counters
  \<^verbatim>\<open>i\<close>, \<^verbatim>\<open>j\<close>, \<^verbatim>\<open>bs_count\<close>, \<^verbatim>\<open>new_len\<close> are \<^verbatim>\<open>guint16\<close> too: they are
  natural numbers here, reduced modulo 65536 wherever the source stores into them.

  The first loop counts the escaping backslashes.  It steps over the byte after
  each of them, so with \<^verbatim>\<open>len = 65535\<close> the counter \<^verbatim>\<open>i\<close> can wrap to 0 and the
  loop then starts again: the loop is a partial function, \<open>None\<close> meaning that it
  does not return.
\<close>

partial_function (option) deslash_count :: "string \<Rightarrow> nat \<Rightarrow> nat \<Rightarrow> nat \<Rightarrow> (nat \<times> nat) option" where
  "deslash_count str len i bs_count =
     (if i < len then
        (if rd str i = BSLASH
         then deslash_count str len (((i + 1) mod 65536 + 1) mod 65536) ((bs_count + 1) mod 65536)
         else deslash_count str len ((i + 1) mod 65536) bs_count)
      else Some (i, bs_count))"

declare deslash_count.simps [code]

text \<open>
  The second loop copies the bytes, dropping each backslash that is not itself
  escaped.  \<^verbatim>\<open>j\<close> is the number of bytes written so far, the length of \<open>rv\<close>.
  Here \<^verbatim>\<open>i < len \<le> 65535\<close>, so \<^verbatim>\<open>i++\<close> does not wrap.
\<close>

function deslash_copy :: "string \<Rightarrow> nat \<Rightarrow> nat \<Rightarrow> nat \<Rightarrow> bool \<Rightarrow> string \<Rightarrow> string" where
  "deslash_copy str len new_len i backslash rv =
     (if i < len \<and> length rv < new_len then
        (if rd str i = BSLASH \<and> \<not> backslash
         then deslash_copy str len new_len (i + 1) True rv
         else deslash_copy str len new_len (i + 1) False (rv @ [rd str i]))
      else rv)"
  by pat_completeness auto
termination
  by (relation "measure (\<lambda>(str, len, new_len, i, backslash, rv). len - i)") auto

declare deslash_copy.simps [simp del]

text \<open>
  The result of \<^verbatim>\<open>deslashndup\<close>: \<open>Some None\<close> is the NULL pointer, \<open>Some (Some s)\<close>
  a freshly allocated string \<open>s\<close>.  \<open>None\<close> stands for "no defined result": the
  counting loop does not return, or the copy loop has written fewer than
  \<^verbatim>\<open>new_len\<close> bytes, so that the returned buffer holds bytes that \<^verbatim>\<open>g_malloc\<close>
  left uninitialised (this needs \<^verbatim>\<open>bs_count--\<close> to fire, that is a backslash
  right behind the given span).
\<close>

definition deslashndup :: "string \<Rightarrow> nat \<Rightarrow> string option option" where
  "deslashndup str n =
     (let len = n mod 65536 in
      if len < 1 then Some None
      else do {
        (i, bs0) \<leftarrow> deslash_count str len 0 0;
        let bs_count =
              (if rd str (i - 1) = BSLASH \<and> (len = 1 \<or> rd str (i - 2) \<noteq> BSLASH)
               then (bs0 + 65535) mod 65536 else bs0);
        let new_len = (len + 65536 - bs_count) mod 65536;
        let rv = deslash_copy str len new_len 0 False [];
        if length rv = new_len then Some (Some rv) else None
      })"

section \<open>C library functions used by the reader\<close>

text \<open>
  \<^verbatim>\<open>isspace\<close> and the case folding of \<^verbatim>\<open>strncasecmp\<close>, as in the C locale (and, for
  single bytes, any UTF-8 locale).
\<close>

definition isspace :: "char \<Rightarrow> bool" where
  "isspace c = (c = SPC \<or> c = CHR 0x09 \<or> c = LF \<or> c = CHR 0x0B \<or> c = CHR 0x0C \<or> c = CR)"

definition isdigit :: "char \<Rightarrow> bool" where
  "isdigit c = (c \<in> set ''0123456789'')"

definition tolower :: "char \<Rightarrow> char" where
  "tolower c =
     (case map_of (zip ''ABCDEFGHIJKLMNOPQRSTUVWXYZ'' ''abcdefghijklmnopqrstuvwxyz'') c of
        Some l \<Rightarrow> l
      | None \<Rightarrow> c)"

fun strncasecmp :: "string \<Rightarrow> string \<Rightarrow> nat \<Rightarrow> int" where
  "strncasecmp s1 s2 0 = 0"
| "strncasecmp s1 s2 (Suc n) =
     (let c1 = tolower (rd s1 0); c2 = tolower (rd s2 0) in
      if c1 \<noteq> c2 then (of_char c1 :: int) - of_char c2
      else if c1 = NUL then 0
      else strncasecmp (tl s1) (tl s2) n)"

fun strncmp :: "string \<Rightarrow> string \<Rightarrow> nat \<Rightarrow> int" where
  "strncmp s1 s2 0 = 0"
| "strncmp s1 s2 (Suc n) =
     (let c1 = rd s1 0; c2 = rd s2 0 in
      if c1 \<noteq> c2 then (of_char c1 :: int) - of_char c2
      else if c1 = NUL then 0
      else strncmp (tl s1) (tl s2) n)"

text \<open>
  \<^verbatim>\<open>atoi\<close>: blanks, an optional sign, then decimal digits.  C leaves the result
  undefined when the number does not fit an \<^verbatim>\<open>int\<close>; the model keeps the
  mathematical value, and the store into a 32-bit variable wraps it.
\<close>

fun atoi_digits :: "string \<Rightarrow> int \<Rightarrow> int" where
  "atoi_digits [] acc = acc"
| "atoi_digits (c # cs) acc =
     (if isdigit c then atoi_digits cs (10 * acc + ((of_char c :: int) - 48)) else acc)"

definition atoi :: "string \<Rightarrow> int" where
  "atoi s =
     (case dropWhile isspace s of
        [] \<Rightarrow> 0
      | c # cs \<Rightarrow>
          if c = CHR ''-'' then - atoi_digits cs 0
          else if c = CHR ''+'' then atoi_digits cs 0
          else atoi_digits (c # cs) 0)"

text \<open>\<^verbatim>\<open>g_strndup\<close>: at most \<open>n\<close> bytes, and none behind a NUL.\<close>

definition g_strndup :: "string \<Rightarrow> nat \<Rightarrow> string" where
  "g_strndup str n = takeWhile (\<lambda>c. c \<noteq> NUL) (take n str)"

section \<open>The per-line fields\<close>

text \<open>
  A \<^verbatim>\<open>gdouble\<close> is either not-a-number or some other value; the values themselves
  stay abstract (type \<open>'v\<close>).  Parsing and printing them is done outside this file
  (\<^verbatim>\<open>g_ascii_strtod\<close>, \<^verbatim>\<open>a_coords_dtostr_buffer\<close>, \<^verbatim>\<open>util_formatd\<close>), so these
  functions are parameters, collected with the other collaborators below.
\<close>

datatype 'v gdouble = NAN | Val 'v

definition isnan :: "'v gdouble \<Rightarrow> bool" where
  "isnan d = (d = NAN)"

datatype gpspoint_type =
    GPSPOINT_TYPE_NONE
  | GPSPOINT_TYPE_WAYPOINT
  | GPSPOINT_TYPE_TRACKPOINT
  | GPSPOINT_TYPE_ROUTEPOINT
  | GPSPOINT_TYPE_TRACK
  | GPSPOINT_TYPE_TRACK_END
  | GPSPOINT_TYPE_ROUTE
  | GPSPOINT_TYPE_ROUTE_END

record 'v LatLon =
  lat :: "'v gdouble"
  lon :: "'v gdouble"

text \<open>
  The static variables \<^verbatim>\<open>line_*\<close> of the reader.  A \<^verbatim>\<open>gchar *\<close> is a
  \<open>string option\<close> (\<open>None\<close> the NULL pointer), a \<^verbatim>\<open>guint\<close> a 32-bit word, a
  \<^verbatim>\<open>gint\<close> or enum a 32-bit word read in two's complement (\<open>sint\<close>).
\<close>

type_synonym guint = "32 word"
type_synonym gint = "32 word"

record 'v line_fields =
  line_type :: gpspoint_type
  line_latlon :: "'v LatLon"
  line_name :: "string option"
  line_comment :: "string option"
  line_description :: "string option"
  line_source :: "string option"
  line_number :: guint
  line_xtype :: "string option"
  line_color :: "string option"
  line_name_label :: gint
  line_dist_label :: gint
  line_image :: "string option"
  line_symbol :: "string option"
  line_url :: "string option"
  line_url_name :: "string option"
  line_image_direction :: "'v gdouble"
  line_image_direction_ref :: gint
  line_newsegment :: bool
  line_timestamp :: "'v gdouble"
  line_altitude :: "'v gdouble"
  line_visible :: bool
  line_extended :: bool
  line_speed :: "'v gdouble"
  line_course :: "'v gdouble"
  line_magvar :: "'v gdouble"
  line_geoidheight :: "'v gdouble"
  line_sat :: guint
  line_fix :: guint
  line_hdop :: "'v gdouble"
  line_vdop :: "'v gdouble"
  line_pdop :: "'v gdouble"
  line_ageofdgpsdata :: "'v gdouble"
  line_dgpsid :: guint

text \<open>
  The initialisers of the static variables.  \<^verbatim>\<open>line_latlon\<close> has none (it starts as
  zeros); its value is an argument here.
\<close>

definition line_fields_init :: "'v LatLon \<Rightarrow> 'v line_fields" where
  "line_fields_init ll =
     \<lparr> line_type = GPSPOINT_TYPE_NONE,
       line_latlon = ll,
       line_name = None,
       line_comment = None,
       line_description = None,
       line_source = None,
       line_number = 0,
       line_xtype = None,
       line_color = None,
       line_name_label = 0,
       line_dist_label = 0,
       line_image = None,
       line_symbol = None,
       line_url = None,
       line_url_name = None,
       line_image_direction = NAN,
       line_image_direction_ref = 0,
       line_newsegment = False,
       line_timestamp = NAN,
       line_altitude = NAN,
       line_visible = True,
       line_extended = False,
       line_speed = NAN,
       line_course = NAN,
       line_magvar = NAN,
       line_geoidheight = NAN,
       line_sat = 0,
       line_fix = 0,
       line_hdop = NAN,
       line_vdop = NAN,
       line_pdop = NAN,
       line_ageofdgpsdata = NAN,
       line_dgpsid = 0 \<rparr>"

section \<open>Collaborators\<close>

text \<open>
  Functions the reader and the writer call that live outside this file: number
  parsing and printing, the coordinate converter (with the layer's coordinate mode
  fixed), the path helpers, the colour parser, the file-reference mode, and
  \<^verbatim>\<open>g_utf8_strdown\<close>.  They are parameters of the model.
\<close>

record GdkColor =
  red :: "16 word"
  green :: "16 word"
  blue :: "16 word"

record ('v, 'c) collab =
  g_ascii_strtod :: "string \<Rightarrow> 'v gdouble"
  a_coords_dtostr_buffer :: "'v gdouble \<Rightarrow> string"
  util_formatd_2f :: "'v gdouble \<Rightarrow> string"
  vik_coord_load_from_latlon :: "'v LatLon \<Rightarrow> 'c"
  vik_coord_to_latlon :: "'c \<Rightarrow> 'v LatLon"
  util_make_absolute_filename :: "string \<Rightarrow> string option \<Rightarrow> string option"
  file_ref_format_relative :: bool
  file_GetRelativeFilename :: "string \<Rightarrow> string \<Rightarrow> string option"
  gdk_color_parse :: "string \<Rightarrow> GdkColor option"
  g_utf8_strdown :: "string \<Rightarrow> string"

section \<open>Field dispatcher\<close>

text \<open>
  \<^verbatim>\<open>gpspoint_process_key_and_value\<close>.  \<open>key\<close> is the buffer from the start of the
  token, \<open>value\<close> the buffer from the start of the value (to the end of the line,
  not only \<open>value_len\<close> bytes of it) or \<open>None\<close> for NULL.  The result is \<open>None\<close>
  where \<^verbatim>\<open>deslashndup\<close> has no defined result.
\<close>

text \<open>
  Every test of a key or of a type name has the form
  \<^verbatim>\<open>len == n && strncasecmp(s, "word", len) == 0\<close>.
\<close>

definition matches :: "string \<Rightarrow> nat \<Rightarrow> nat \<Rightarrow> string \<Rightarrow> bool" where
  "matches s len n word = (len = n \<and> strncasecmp s word len = 0)"

definition gpspoint_process_key_and_value ::
  "('v, 'c) collab \<Rightarrow> 'v line_fields \<Rightarrow> string \<Rightarrow> nat \<Rightarrow> string option \<Rightarrow> nat
     \<Rightarrow> 'v line_fields option" where
  "gpspoint_process_key_and_value X g key key_len value value_len =
    (if matches key key_len 8 ''latitude'' \<and> value \<noteq> None then
       Some (g\<lparr>line_latlon := (line_latlon g)\<lparr>lat := g_ascii_strtod X (the value)\<rparr>\<rparr>)
     else if matches key key_len 9 ''longitude'' \<and> value \<noteq> None then
       Some (g\<lparr>line_latlon := (line_latlon g)\<lparr>lon := g_ascii_strtod X (the value)\<rparr>\<rparr>)
     else if matches key key_len 8 ''unixtime'' \<and> value \<noteq> None then
       Some (g\<lparr>line_timestamp := g_ascii_strtod X (the value)\<rparr>)
     else if matches key key_len 8 ''altitude'' \<and> value \<noteq> None then
       Some (g\<lparr>line_altitude := g_ascii_strtod X (the value)\<rparr>)
     else if matches key key_len 4 ''type'' then
       (case value of
          None \<Rightarrow> Some (g\<lparr>line_type := GPSPOINT_TYPE_NONE\<rparr>)
        | Some v \<Rightarrow>
           if matches v value_len 5 ''track'' then
             Some (g\<lparr>line_type := GPSPOINT_TYPE_TRACK\<rparr>)
           else if matches v value_len 8 ''trackend'' then
             Some (g\<lparr>line_type := GPSPOINT_TYPE_TRACK_END\<rparr>)
           else if matches v value_len 10 ''trackpoint'' then
             Some (g\<lparr>line_type := GPSPOINT_TYPE_TRACKPOINT\<rparr>)
           else if matches v value_len 8 ''waypoint'' then
             Some (g\<lparr>line_type := GPSPOINT_TYPE_WAYPOINT\<rparr>)
           else if matches v value_len 5 ''route'' then
             Some (g\<lparr>line_type := GPSPOINT_TYPE_ROUTE\<rparr>)
           else if matches v value_len 8 ''routeend'' then
             Some (g\<lparr>line_type := GPSPOINT_TYPE_ROUTE_END\<rparr>)
           else if matches v value_len 10 ''routepoint'' then
             Some (g\<lparr>line_type := GPSPOINT_TYPE_ROUTEPOINT\<rparr>)
           else
             Some (g\<lparr>line_type := GPSPOINT_TYPE_NONE\<rparr>))
     else if matches key key_len 4 ''name'' \<and> value \<noteq> None then
       (if line_name g = None
        then map_option (\<lambda>r. g\<lparr>line_name := r\<rparr>) (deslashndup (the value) value_len)
        else Some g)
     else if matches key key_len 7 ''comment'' \<and> value \<noteq> None then
       (if line_comment g = None
        then map_option (\<lambda>r. g\<lparr>line_comment := r\<rparr>) (deslashndup (the value) value_len)
        else Some g)
     else if matches key key_len 11 ''description'' \<and> value \<noteq> None then
       (if line_description g = None
        then map_option (\<lambda>r. g\<lparr>line_description := r\<rparr>) (deslashndup (the value) value_len)
        else Some g)
     else if matches key key_len 6 ''source'' \<and> value \<noteq> None then
       (if line_source g = None
        then map_option (\<lambda>r. g\<lparr>line_source := r\<rparr>) (deslashndup (the value) value_len)
        else Some g)
     else if matches key key_len 6 ''number'' \<and> value \<noteq> None then
       Some (g\<lparr>line_number := word_of_int (atoi (the value))\<rparr>)
     else if matches key key_len 5 ''xtype'' \<and> value \<noteq> None then
       (if line_xtype g = None
        then map_option (\<lambda>r. g\<lparr>line_xtype := r\<rparr>) (deslashndup (the value) value_len)
        else Some g)
     else if matches key key_len 5 ''color'' \<and> value \<noteq> None then
       (if line_color g = None
        then map_option (\<lambda>r. g\<lparr>line_color := r\<rparr>) (deslashndup (the value) value_len)
        else Some g)
     else if matches key key_len 14 ''draw_name_mode'' \<and> value \<noteq> None then
       Some (g\<lparr>line_name_label := word_of_int (atoi (the value))\<rparr>)
     else if matches key key_len 18 ''number_dist_labels'' \<and> value \<noteq> None then
       Some (g\<lparr>line_dist_label := word_of_int (atoi (the value))\<rparr>)
     else if matches key key_len 5 ''image'' \<and> value \<noteq> None then
       (if line_image g = None
        then map_option (\<lambda>r. g\<lparr>line_image := r\<rparr>) (deslashndup (the value) value_len)
        else Some g)
     else if matches key key_len 15 ''image_direction'' \<and> value \<noteq> None then
       Some (g\<lparr>line_image_direction := g_ascii_strtod X (the value)\<rparr>)
     else if matches key key_len 19 ''image_direction_ref'' \<and> value \<noteq> None then
       Some (g\<lparr>line_image_direction_ref := word_of_int (atoi (the value))\<rparr>)
     else if matches key key_len 7 ''visible'' \<and> value \<noteq> None
             \<and> rd (the value) 0 \<noteq> CHR ''y'' \<and> rd (the value) 0 \<noteq> CHR ''Y''
             \<and> rd (the value) 0 \<noteq> CHR ''t'' \<and> rd (the value) 0 \<noteq> CHR ''T'' then
       Some (g\<lparr>line_visible := False\<rparr>)
     else if matches key key_len 6 ''symbol'' \<and> value \<noteq> None then
       Some (g\<lparr>line_symbol := Some (g_strndup (the value) value_len)\<rparr>)
     else if matches key key_len 10 ''newsegment'' \<and> value \<noteq> None then
       Some (g\<lparr>line_newsegment := True\<rparr>)
     else if matches key key_len 8 ''extended'' \<and> value \<noteq> None then
       Some (g\<lparr>line_extended := True\<rparr>)
     else if matches key key_len 5 ''speed'' \<and> value \<noteq> None then
       Some (g\<lparr>line_speed := g_ascii_strtod X (the value)\<rparr>)
     else if matches key key_len 6 ''course'' \<and> value \<noteq> None then
       Some (g\<lparr>line_course := g_ascii_strtod X (the value)\<rparr>)
     else if matches key key_len 3 ''sat'' \<and> value \<noteq> None then
       Some (g\<lparr>line_sat := word_of_int (atoi (the value))\<rparr>)
     else if matches key key_len 3 ''fix'' \<and> value \<noteq> None then
       Some (g\<lparr>line_fix := word_of_int (atoi (the value))\<rparr>)
     else if matches key key_len 4 ''hdop'' \<and> value \<noteq> None then
       Some (g\<lparr>line_hdop := g_ascii_strtod X (the value)\<rparr>)
     else if matches key key_len 4 ''vdop'' \<and> value \<noteq> None then
       Some (g\<lparr>line_vdop := g_ascii_strtod X (the value)\<rparr>)
     else if matches key key_len 4 ''pdop'' \<and> value \<noteq> None then
       Some (g\<lparr>line_pdop := g_ascii_strtod X (the value)\<rparr>)
     else if matches key key_len 6 ''magvar'' \<and> value \<noteq> None then
       Some (g\<lparr>line_magvar := g_ascii_strtod X (the value)\<rparr>)
     else if matches key key_len 11 ''geoidheight'' \<and> value \<noteq> None then
       Some (g\<lparr>line_geoidheight := g_ascii_strtod X (the value)\<rparr>)
     else if matches key key_len 3 ''url'' \<and> value \<noteq> None then
       map_option (\<lambda>r. g\<lparr>line_url := r\<rparr>) (deslashndup (the value) value_len)
     else if matches key key_len 8 ''url_name'' \<and> value \<noteq> None then
       map_option (\<lambda>r. g\<lparr>line_url_name := r\<rparr>) (deslashndup (the value) value_len)
     else if matches key key_len 13 ''ageofdgpsdata'' \<and> value \<noteq> None then
       Some (g\<lparr>line_ageofdgpsdata := g_ascii_strtod X (the value)\<rparr>)
     else if matches key key_len 6 ''dgpsid'' \<and> value \<noteq> None then
       Some (g\<lparr>line_dgpsid := word_of_int (atoi (the value))\<rparr>)
     else Some g)"

text \<open>
  \<^verbatim>\<open>gpspoint_process_tag\<close>.  \<open>tag\<close> is the buffer from the start of the token,
  \<open>len\<close> the token's length.  Pointers into the token are offsets from \<open>tag\<close>; the
  search for the end of the key starts at offset 1.
\<close>

function key_end_loop :: "string \<Rightarrow> nat \<Rightarrow> nat \<Rightarrow> nat" where
  "key_end_loop tag len k =
     (if k + 1 < len then
        (if rd tag (k + 1) = EQUALS then k + 1 else key_end_loop tag len (k + 1))
      else k + 1)"
  by pat_completeness auto
termination
  by (relation "measure (\<lambda>(tag, len, k). len - k)") auto

declare key_end_loop.simps [simp del]

definition gpspoint_process_tag ::
  "('v, 'c) collab \<Rightarrow> 'v line_fields \<Rightarrow> string \<Rightarrow> nat \<Rightarrow> 'v line_fields option" where
  "gpspoint_process_tag X g tag len =
    (let key_end = key_end_loop tag len 0 in
     if key_end = len then Some g
     else if key_end = len + 1 then Some g
     else
       let value_start = key_end + 1 in
       if rd tag value_start = DQUOTE then
         (let value_start = value_start + 1 in
          if rd tag value_start = DQUOTE then
            gpspoint_process_key_and_value X g tag key_end None 0
          else if rd tag (len - 1) = DQUOTE then
            (let value_end = len - 1 in
             if int value_end - int value_start < 0 then Some g
             else gpspoint_process_key_and_value X g tag key_end
                    (Some (drop value_start tag)) (value_end - value_start))
          else Some g)
       else
         (let value_end = len in
          if int value_end - int value_start < 0 then Some g
          else gpspoint_process_key_and_value X g tag key_end
                 (Some (drop value_start tag)) (value_end - value_start)))"

section \<open>Line tokenizer\<close>

text \<open>The byte a pointer points to; at the end of the buffer, the terminator.\<close>

definition cur :: "string \<Rightarrow> char" where
  "cur s = rd s 0"

text \<open>
  The inner loop that looks for the end of the token: \<open>s\<close> is the buffer from
  \<^verbatim>\<open>tag_end\<close>, \<open>n\<close> counts the bytes passed (\<^verbatim>\<open>tag_end - tag_start\<close>).  The pointer is
  advanced first and the byte it then points to drives the two flags.
\<close>

function tag_end_loop :: "string \<Rightarrow> bool \<Rightarrow> bool \<Rightarrow> nat \<Rightarrow> nat \<times> bool \<times> bool" where
  "tag_end_loop s inside_quote backslash n =
     (if cur s \<noteq> NUL \<and> (\<not> isspace (cur s) \<or> inside_quote) then
        (if cur (tl s) = BSLASH \<and> \<not> backslash then tag_end_loop (tl s) inside_quote True (n + 1)
         else if backslash then tag_end_loop (tl s) inside_quote False (n + 1)
         else if cur (tl s) = DQUOTE then tag_end_loop (tl s) (\<not> inside_quote) backslash (n + 1)
         else tag_end_loop (tl s) inside_quote backslash (n + 1))
      else (n, inside_quote, backslash))"
  by pat_completeness auto
termination
  by (relation "measure (\<lambda>(s, inside_quote, backslash, n). length s)")
     (auto simp: cur_def rd_def split: if_splits)

declare tag_end_loop.simps [simp del]

text \<open>
  The loop over the tokens of one line (the \<^verbatim>\<open>for (;;)\<close> of
  \<^verbatim>\<open>a_gpspoint_read_file\<close>); \<open>s\<close> is the buffer from \<^verbatim>\<open>tag_start\<close>.  The two flags
  are set to 0 at the start of each line and live through all its tokens.
\<close>

definition skip_space :: "string \<Rightarrow> string" where
  "skip_space s = dropWhile (\<lambda>c. c \<noteq> NUL \<and> isspace c) s"


function tokens_loop ::
  "('v, 'c) collab \<Rightarrow> 'v line_fields \<Rightarrow> string \<Rightarrow> bool \<Rightarrow> bool \<Rightarrow> 'v line_fields option" where
  "tokens_loop X g s inside_quote backslash =
     (let tag_start = skip_space s in
      if cur tag_start = NUL then Some g
      else if cur tag_start = HASH then Some g
      else
        (case tag_end_loop tag_start
                (if cur tag_start = DQUOTE then \<not> inside_quote else inside_quote) backslash 0 of
           (len, inside_quote', backslash') \<Rightarrow>
             (case gpspoint_process_tag X g tag_start len of
                None \<Rightarrow> None
              | Some g' \<Rightarrow>
                  if rd tag_start len = NUL then Some g'
                  else tokens_loop X g' (drop (len + 1) tag_start) inside_quote' backslash')))"
  by pat_completeness auto
termination
proof (relation "measure (\<lambda>(X, g, s, inside_quote, backslash). length s)", goal_cases)
  case 1
  show ?case by simp
next
  case (2 X g s)
  have "skip_space s \<noteq> []"
    using 2 by (auto simp: cur_def rd_def)
  moreover have "length (skip_space s) \<le> length s"
    by (simp add: skip_space_def length_dropWhile_le)
  ultimately show ?case
    using 2 by (cases "skip_space s") auto
qed

declare tokens_loop.simps [simp del]

section \<open>Entities\<close>

text \<open>
  \<^verbatim>\<open>struct _VikWaypoint\<close>, without the field that only serves the display
  (\<^verbatim>\<open>symbol_pixbuf\<close>).  The field names carry a prefix, since waypoints, trackpoints
  and tracks share most of them.
\<close>

record ('v, 'c) VikWaypoint =
  wp_coord :: 'c
  wp_visible :: bool
  wp_timestamp :: "'v gdouble"
  wp_altitude :: "'v gdouble"
  wp_course :: "'v gdouble"
  wp_speed :: "'v gdouble"
  wp_magvar :: "'v gdouble"
  wp_geoidheight :: "'v gdouble"
  wp_hide_name :: bool
  wp_name :: "string option"
  wp_comment :: "string option"
  wp_description :: "string option"
  wp_source :: "string option"
  wp_url :: "string option"
  wp_url_name :: "string option"
  wp_type :: "string option"
  wp_fix_mode :: guint
  wp_nsats :: guint
  wp_hdop :: "'v gdouble"
  wp_vdop :: "'v gdouble"
  wp_pdop :: "'v gdouble"
  wp_ageofdgpsdata :: "'v gdouble"
  wp_dgpsid :: guint
  wp_image :: "string option"
  wp_image_direction :: "'v gdouble"
  wp_image_direction_ref :: gint
  wp_image_width :: "8 word"
  wp_image_height :: "8 word"
  wp_symbol :: "string option"
  wp_extensions :: "string option"

text \<open>
  Modelled from the spec: the declarations of \<^verbatim>\<open>VikTrackpoint\<close> and \<^verbatim>\<open>VikTrack\<close> are
  missing; the records hold the fields that the reader and the writer use, with
  the types of the waypoint's fields of the same name.
\<close>

record ('v, 'c) VikTrackpoint =
  tp_name :: "string option"
  tp_coord :: 'c
  tp_newsegment :: bool
  tp_timestamp :: "'v gdouble"
  tp_altitude :: "'v gdouble"
  tp_speed :: "'v gdouble"
  tp_course :: "'v gdouble"
  tp_nsats :: guint
  tp_fix_mode :: guint
  tp_hdop :: "'v gdouble"
  tp_vdop :: "'v gdouble"
  tp_pdop :: "'v gdouble"

record ('v, 'c) VikTrack =
  trk_trackpoints :: "('v, 'c) VikTrackpoint list"
  trk_visible :: bool
  trk_is_route :: bool
  trk_name :: "string option"
  trk_comment :: "string option"
  trk_description :: "string option"
  trk_source :: "string option"
  trk_number :: guint
  trk_type :: "string option"
  trk_has_color :: bool
  trk_color :: GdkColor
  trk_draw_name_mode :: gint
  trk_max_number_dist_labels :: gint

text \<open>
  Modelled from the spec: the constructors \<^verbatim>\<open>vik_waypoint_new\<close>,
  \<^verbatim>\<open>vik_trackpoint_new\<close> and \<^verbatim>\<open>vik_track_new\<close> are missing.  A fresh entity has
  every optional field at its absence sentinel: not-a-number, zero, NULL; it is
  visible.  The coordinate of a fresh point is set by the reader right away and is
  an argument here.
\<close>

definition vik_waypoint_new :: "'c \<Rightarrow> ('v, 'c) VikWaypoint" where
  "vik_waypoint_new c =
     \<lparr> wp_coord = c, wp_visible = True, wp_timestamp = NAN, wp_altitude = NAN,
       wp_course = NAN, wp_speed = NAN, wp_magvar = NAN, wp_geoidheight = NAN,
       wp_hide_name = False, wp_name = None, wp_comment = None, wp_description = None,
       wp_source = None, wp_url = None, wp_url_name = None, wp_type = None,
       wp_fix_mode = 0, wp_nsats = 0, wp_hdop = NAN, wp_vdop = NAN, wp_pdop = NAN,
       wp_ageofdgpsdata = NAN, wp_dgpsid = 0, wp_image = None, wp_image_direction = NAN,
       wp_image_direction_ref = 0, wp_image_width = 0, wp_image_height = 0,
       wp_symbol = None, wp_extensions = None \<rparr>"

definition vik_trackpoint_new :: "'c \<Rightarrow> ('v, 'c) VikTrackpoint" where
  "vik_trackpoint_new c =
     \<lparr> tp_name = None, tp_coord = c, tp_newsegment = False, tp_timestamp = NAN,
       tp_altitude = NAN, tp_speed = NAN, tp_course = NAN, tp_nsats = 0, tp_fix_mode = 0,
       tp_hdop = NAN, tp_vdop = NAN, tp_pdop = NAN \<rparr>"

definition vik_track_new :: "('v, 'c) VikTrack" where
  "vik_track_new =
     \<lparr> trk_trackpoints = [], trk_visible = True, trk_is_route = False, trk_name = None,
       trk_comment = None, trk_description = None, trk_source = None, trk_number = 0,
       trk_type = None, trk_has_color = False,
       trk_color = \<lparr> red = 0, green = 0, blue = 0 \<rparr>,
       trk_draw_name_mode = 0, trk_max_number_dist_labels = 0 \<rparr>"

section \<open>Record assembler\<close>

text \<open>
  Modelled from the spec: the layer (\<^verbatim>\<open>VikTrwLayer\<close>, with
  \<^verbatim>\<open>vik_trw_layer_filein_add_waypoint\<close>, \<^verbatim>\<open>vik_trw_layer_filein_add_track\<close> and the
  \<^verbatim>\<open>vik_trw_layer_get_*\<close> functions) is missing.  The layer holds its waypoints,
  and its tracks and routes, in the order of their insertion; inserting an entity
  gives it its name and puts it last.  Tracks and routes are \<^verbatim>\<open>VikTrack\<close> objects
  in one list, told apart by \<^verbatim>\<open>is_route\<close>.  A pointer to a \<^verbatim>\<open>VikTrack\<close> of the layer
  is its position in that list: the reader appends points to a track through
  \<^verbatim>\<open>current_track\<close> after the track has been inserted.
\<close>

record ('v, 'c) VikTrwLayer =
  trw_waypoints :: "('v, 'c) VikWaypoint list"
  trw_tracks :: "('v, 'c) VikTrack list"

definition vik_trw_layer_filein_add_waypoint ::
  "('v, 'c) VikTrwLayer \<Rightarrow> string \<Rightarrow> ('v, 'c) VikWaypoint \<Rightarrow> ('v, 'c) VikTrwLayer" where
  "vik_trw_layer_filein_add_waypoint trw name wp =
     trw\<lparr>trw_waypoints := trw_waypoints trw @ [wp\<lparr>wp_name := Some name\<rparr>]\<rparr>"

definition vik_trw_layer_filein_add_track ::
  "('v, 'c) VikTrwLayer \<Rightarrow> string \<Rightarrow> ('v, 'c) VikTrack \<Rightarrow> ('v, 'c) VikTrwLayer" where
  "vik_trw_layer_filein_add_track trw name trk =
     trw\<lparr>trw_tracks := trw_tracks trw @ [trk\<lparr>trk_name := Some name\<rparr>]\<rparr>"

definition vik_trw_layer_get_waypoints :: "('v, 'c) VikTrwLayer \<Rightarrow> ('v, 'c) VikWaypoint list" where
  "vik_trw_layer_get_waypoints trw = trw_waypoints trw"

definition vik_trw_layer_get_tracks :: "('v, 'c) VikTrwLayer \<Rightarrow> ('v, 'c) VikTrack list" where
  "vik_trw_layer_get_tracks trw = filter (\<lambda>t. \<not> trk_is_route t) (trw_tracks trw)"

definition vik_trw_layer_get_routes :: "('v, 'c) VikTrwLayer \<Rightarrow> ('v, 'c) VikTrack list" where
  "vik_trw_layer_get_routes trw = filter trk_is_route (trw_tracks trw)"

text \<open>
  The state of a read: the layer, \<^verbatim>\<open>current_track\<close>, \<^verbatim>\<open>have_read_something\<close> and
  the per-line fields.
\<close>

record ('v, 'c) reader =
  trw :: "('v, 'c) VikTrwLayer"
  current_track :: "nat option"
  have_read_something :: bool
  line :: "'v line_fields"

text \<open>Applying a change to the track a pointer points to.\<close>

definition on_track ::
  "nat \<Rightarrow> (('v, 'c) VikTrack \<Rightarrow> ('v, 'c) VikTrack) \<Rightarrow> ('v, 'c) VikTrwLayer \<Rightarrow> ('v, 'c) VikTrwLayer" where
  "on_track a f l =
     (if a < length (trw_tracks l) then l\<lparr>trw_tracks := (trw_tracks l)[a := f (trw_tracks l ! a)]\<rparr>
      else l)"

definition track_at :: "('v, 'c) VikTrwLayer \<Rightarrow> nat \<Rightarrow> ('v, 'c) VikTrack option" where
  "track_at l a = (if a < length (trw_tracks l) then Some (trw_tracks l ! a) else None)"

definition trackpoints_end :: "('v, 'c) reader \<Rightarrow> ('v, 'c) reader" where
  "trackpoints_end st =
     (case current_track st of
        None \<Rightarrow> st
      | Some a \<Rightarrow>
          (case track_at (trw st) a of
             None \<Rightarrow> st
           | Some t \<Rightarrow>
               if trk_trackpoints t \<noteq> [] then
                 st\<lparr>trw := on_track a (\<lambda>t. t\<lparr>trk_trackpoints := rev (trk_trackpoints t)\<rparr>) (trw st),
                    current_track := None\<rparr>
               else st))"

text \<open>
  The part of the loop body of \<^verbatim>\<open>a_gpspoint_read_file\<close> that follows the tokens of a
  line: closing a track, then a waypoint, a track or route, or a point.  The source
  inserts a new waypoint or track into the layer and then sets its fields through
  the pointer; nothing reads the layer in between, so the model sets the fields
  first and then inserts.
\<close>

definition line_assemble ::
  "('v, 'c) collab \<Rightarrow> string option \<Rightarrow> ('v, 'c) reader \<Rightarrow> ('v, 'c) reader" where
  "line_assemble X dirpath st0 =
    (let st1 = (if line_type (line st0) = GPSPOINT_TYPE_TRACK_END
                   \<or> line_type (line st0) = GPSPOINT_TYPE_ROUTE_END
                then trackpoints_end st0 else st0);
         g = line st1
     in
     if line_type g = GPSPOINT_TYPE_WAYPOINT \<and> line_name g \<noteq> None then
       (let st2 = (trackpoints_end st1)\<lparr>have_read_something := True\<rparr>;
            wp0 = (vik_waypoint_new (vik_coord_load_from_latlon X (line_latlon g)))
                   \<lparr> wp_visible := line_visible g,
                     wp_altitude := line_altitude g,
                     wp_timestamp := line_timestamp g,
                     wp_speed := line_speed g,
                     wp_course := line_course g,
                     wp_magvar := line_magvar g,
                     wp_geoidheight := line_geoidheight g,
                     wp_nsats := line_sat g,
                     wp_fix_mode := line_fix g,
                     wp_hdop := line_hdop g,
                     wp_vdop := line_vdop g,
                     wp_pdop := line_pdop g,
                     wp_ageofdgpsdata := line_ageofdgpsdata g,
                     wp_dgpsid := line_dgpsid g \<rparr>;
            wp1 = (if line_comment g \<noteq> None then wp0\<lparr>wp_comment := line_comment g\<rparr> else wp0);
            wp2 = (if line_description g \<noteq> None then wp1\<lparr>wp_description := line_description g\<rparr> else wp1);
            wp3 = (if line_source g \<noteq> None then wp2\<lparr>wp_source := line_source g\<rparr> else wp2);
            wp4 = (if line_url g \<noteq> None then wp3\<lparr>wp_url := line_url g\<rparr> else wp3);
            wp5 = (if line_url_name g \<noteq> None then wp4\<lparr>wp_url_name := line_url_name g\<rparr> else wp4);
            wp6 = (if line_xtype g \<noteq> None then wp5\<lparr>wp_type := line_xtype g\<rparr> else wp5);
            wp7 = (case line_image g of
                     None \<Rightarrow> wp6
                   | Some img \<Rightarrow>
                       (case util_make_absolute_filename X img dirpath of
                          Some fn \<Rightarrow> wp6\<lparr>wp_image := Some fn\<rparr>
                        | None \<Rightarrow> wp6\<lparr>wp_image := Some img\<rparr>));
            wp8 = (if \<not> isnan (line_image_direction g)
                   then wp7\<lparr>wp_image_direction := line_image_direction g,
                            wp_image_direction_ref := line_image_direction_ref g\<rparr>
                   else wp7);
            wp9 = (if line_symbol g \<noteq> None then wp8\<lparr>wp_symbol := line_symbol g\<rparr> else wp8)
        in st2\<lparr>trw := vik_trw_layer_filein_add_waypoint (trw st2) (the (line_name g)) wp9,
               line := g\<lparr>line_name := None\<rparr>\<rparr>)
     else if (line_type g = GPSPOINT_TYPE_TRACK \<or> line_type g = GPSPOINT_TYPE_ROUTE)
             \<and> line_name g \<noteq> None then
       (let st2 = (trackpoints_end st1)\<lparr>have_read_something := True\<rparr>;
            name = (case line_name g of None \<Rightarrow> ''UNK'' | Some n \<Rightarrow> n);
            pl0 = vik_track_new\<lparr> trk_visible := line_visible g,
                                 trk_is_route := (line_type g = GPSPOINT_TYPE_ROUTE) \<rparr>;
            pl1 = (if line_comment g \<noteq> None then pl0\<lparr>trk_comment := line_comment g\<rparr> else pl0);
            pl2 = (if line_description g \<noteq> None then pl1\<lparr>trk_description := line_description g\<rparr> else pl1);
            pl3 = (if line_source g \<noteq> None then pl2\<lparr>trk_source := line_source g\<rparr> else pl2);
            pl4 = (if line_number g \<noteq> 0 then pl3\<lparr>trk_number := line_number g\<rparr> else pl3);
            pl5 = (if line_xtype g \<noteq> None then pl4\<lparr>trk_type := line_xtype g\<rparr> else pl4);
            pl6 = (case line_color g of
                     None \<Rightarrow> pl5
                   | Some c \<Rightarrow>
                       (case gdk_color_parse X c of
                          Some col \<Rightarrow> pl5\<lparr>trk_color := col, trk_has_color := True\<rparr>
                        | None \<Rightarrow> pl5));
            pl7 = pl6\<lparr> trk_draw_name_mode := line_name_label g,
                         trk_max_number_dist_labels := line_dist_label g,
                         trk_trackpoints := [] \<rparr>
        in st2\<lparr>trw := vik_trw_layer_filein_add_track (trw st2) name pl7,
               current_track := Some (length (trw_tracks (trw st2))),
               line := g\<lparr>line_name := None\<rparr>\<rparr>)
     else if (line_type g = GPSPOINT_TYPE_TRACKPOINT \<or> line_type g = GPSPOINT_TYPE_ROUTEPOINT)
             \<and> current_track st1 \<noteq> None then
       (let tp0 = (vik_trackpoint_new (vik_coord_load_from_latlon X (line_latlon g)))
                   \<lparr> tp_newsegment := line_newsegment g,
                     tp_timestamp := line_timestamp g,
                     tp_altitude := line_altitude g,
                     tp_name := line_name g \<rparr>;
            tp = (if line_extended g
                  then tp0\<lparr> tp_speed := line_speed g,
                            tp_course := line_course g,
                            tp_nsats := line_sat g,
                            tp_fix_mode := line_fix g,
                            tp_hdop := line_hdop g,
                            tp_vdop := line_vdop g,
                            tp_pdop := line_pdop g \<rparr>
                  else tp0)
        in st1\<lparr>have_read_something := True,
               trw := on_track (the (current_track st1))
                        (\<lambda>t. t\<lparr>trk_trackpoints := tp # trk_trackpoints t\<rparr>) (trw st1)\<rparr>)
     else st1)"

text \<open>The assignments that end the loop body: the per-line fields go back to their defaults.\<close>

definition line_reset :: "'v line_fields \<Rightarrow> 'v line_fields" where
  "line_reset g =
     g\<lparr> line_name := None,
        line_comment := None,
        line_description := None,
        line_source := None,
        line_xtype := None,
        line_color := None,
        line_image := None,
        line_image_direction := NAN,
        line_image_direction_ref := 0,
        line_symbol := None,
        line_type := GPSPOINT_TYPE_NONE,
        line_newsegment := False,
        line_timestamp := NAN,
        line_altitude := NAN,
        line_visible := True,
        line_url := None,
        line_url_name := None,
        line_magvar := NAN,
        line_geoidheight := NAN,
        line_extended := False,
        line_speed := NAN,
        line_course := NAN,
        line_sat := 0,
        line_fix := 0,
        line_hdop := NAN,
        line_vdop := NAN,
        line_pdop := NAN,
        line_ageofdgpsdata := NAN,
        line_dgpsid := 0,
        line_name_label := 0,
        line_dist_label := 0,
        line_number := 0 \<rparr>"

text \<open>One pass of the loop body for a line whose newline has been chopped off.\<close>

definition process_line ::
  "('v, 'c) collab \<Rightarrow> string option \<Rightarrow> ('v, 'c) reader \<Rightarrow> string \<Rightarrow> ('v, 'c) reader option" where
  "process_line X dirpath st ln =
     (case tokens_loop X (line st) ln False False of
        None \<Rightarrow> None
      | Some g \<Rightarrow>
          (let st' = line_assemble X dirpath (st\<lparr>line := g\<rparr>)
           in Some (st'\<lparr>line := line_reset (line st')\<rparr>)))"

section \<open>Reading a file\<close>

text \<open>
  The file is the list of the bytes still to be read.  \<^verbatim>\<open>fgets\<close> with a buffer of
  \<open>n\<close> bytes takes at most \<open>n - 1\<close> of them and stops behind a line feed; it
  returns NULL (\<open>None\<close>) at the end of the file.
\<close>

definition VIKING_LINE_SIZE :: nat where
  "VIKING_LINE_SIZE = 4096"

definition fgets :: "nat \<Rightarrow> string \<Rightarrow> (string \<times> string) option" where
  "fgets n f =
     (if f = [] then None
      else
        (let chunk = take (n - 1) f; pre = takeWhile (\<lambda>c. c \<noteq> LF) chunk in
         if length pre < length chunk then Some (pre @ [LF], drop (length pre + 1) f)
         else Some (chunk, drop (length chunk) f)))"

definition strlen_buf :: "string \<Rightarrow> nat" where
  "strlen_buf buf = length (takeWhile (\<lambda>c. c \<noteq> NUL) buf)"

text \<open>
  The loop over the lines.  \<^verbatim>\<open>line_buffer[strlen(line_buffer)-1] = '\0'\<close> writes in
  front of the buffer when the line starts with a NUL byte: no defined result
  (\<open>None\<close>).
\<close>

function read_lines ::
  "('v, 'c) collab \<Rightarrow> string option \<Rightarrow> ('v, 'c) reader \<Rightarrow> string \<Rightarrow> ('v, 'c) reader option" where
  "read_lines X dirpath st f =
     (case fgets VIKING_LINE_SIZE f of
        None \<Rightarrow> Some st
      | Some (buf, f') \<Rightarrow>
          if strlen_buf buf = 0 then None
          else
            (let ln = take (strlen_buf buf - 1) buf in
             if length ln \<ge> 13 \<and> strncmp ln ''~EndLayerData'' 13 = 0
             then Some (st\<lparr>have_read_something := True\<rparr>)
             else
               (case process_line X dirpath st ln of
                  None \<Rightarrow> None
                | Some st' \<Rightarrow> read_lines X dirpath st' f')))"
  by pat_completeness auto
termination
proof (relation "measure (\<lambda>(X, dirpath, st, f). length f)", goal_cases)
  case 1
  show ?case by simp
next
  case (2 X dirpath st f)
  then show ?case
    by (auto simp: fgets_def VIKING_LINE_SIZE_def Let_def split: if_splits)
qed

declare read_lines.simps [simp del]

text \<open>
  \<^verbatim>\<open>a_gpspoint_read_file\<close>.  The per-line fields are static variables: \<open>g0\<close> is what
  they hold when the function is entered.  The result is the state after the last
  line and the closing \<^verbatim>\<open>trackpoints_end\<close>; the function returns its
  \<^verbatim>\<open>have_read_something\<close>.
\<close>

definition a_gpspoint_read_file ::
  "('v, 'c) collab \<Rightarrow> 'v line_fields \<Rightarrow> ('v, 'c) VikTrwLayer \<Rightarrow> string \<Rightarrow> string option
     \<Rightarrow> ('v, 'c) reader option" where
  "a_gpspoint_read_file X g0 layer f dirpath =
     map_option trackpoints_end
       (read_lines X dirpath
          \<lparr> trw = layer, current_track = None, have_read_something = False,
            line = g0\<lparr> line_type := GPSPOINT_TYPE_NONE,
                       line_timestamp := NAN,
                       line_newsegment := False,
                       line_image := None,
                       line_symbol := None \<rparr> \<rparr>
          f)"

section \<open>Writer\<close>

text \<open>
  The output file is the list of the texts that the calls of \<^verbatim>\<open>fprintf\<close> have
  written, in order; the bytes of the file are their concatenation.
\<close>

definition file_bytes :: "string list \<Rightarrow> string" where
  "file_bytes out = concat out"

text \<open>\<^verbatim>\<open>%d\<close> and \<^verbatim>\<open>%.2x\<close> of \<^verbatim>\<open>fprintf\<close>.\<close>

function dec_nat :: "nat \<Rightarrow> string" where
  "dec_nat n = (if n < 10 then [''0123456789'' ! n] else dec_nat (n div 10) @ [''0123456789'' ! (n mod 10)])"
  by pat_completeness auto
termination
  by (relation "measure id") auto

declare dec_nat.simps [simp del]

definition fmt_d :: "int \<Rightarrow> string" where
  "fmt_d i = (if i < 0 then CHR ''-'' # dec_nat (nat (- i)) else dec_nat (nat i))"

function hex_nat :: "nat \<Rightarrow> string" where
  "hex_nat n = (if n < 16 then [''0123456789abcdef'' ! n]
                else hex_nat (n div 16) @ [''0123456789abcdef'' ! (n mod 16)])"
  by pat_completeness auto
termination
  by (relation "measure id") auto

declare hex_nat.simps [simp del]

definition fmt_02x :: "nat \<Rightarrow> string" where
  "fmt_02x n = (if n < 16 then CHR ''0'' # hex_nat n else hex_nat n)"

text \<open>The format \<^verbatim>\<open>" %s=\"%s\""\<close>.\<close>

definition fmt_field :: "string \<Rightarrow> string \<Rightarrow> string" where
  "fmt_field tag v = SPC # tag @ EQUALS # DQUOTE # v @ [DQUOTE]"

definition write_double :: "('v, 'c) collab \<Rightarrow> string \<Rightarrow> 'v gdouble \<Rightarrow> string list" where
  "write_double X tag v =
     (if \<not> isnan v then [fmt_field tag (a_coords_dtostr_buffer X v)] else [])"

definition write_positive_uint :: "string \<Rightarrow> guint \<Rightarrow> string list" where
  "write_positive_uint tag v = (if v \<noteq> 0 then [fmt_field tag (fmt_d (sint v))] else [])"

definition write_string :: "string \<Rightarrow> string option \<Rightarrow> string list" where
  "write_string tag v =
     (case v of
        None \<Rightarrow> []
      | Some s \<Rightarrow> if length s \<noteq> 0 then [fmt_field tag (slashdup s)] else [])"

definition a_gpspoint_write_waypoint ::
  "('v, 'c) collab \<Rightarrow> string option \<Rightarrow> ('v, 'c) VikWaypoint \<Rightarrow> string list" where
  "a_gpspoint_write_waypoint X dirpath wp =
     (case wp_name wp of
        None \<Rightarrow> []
      | Some name \<Rightarrow>
          (let ll = vik_coord_to_latlon X (wp_coord wp);
               s_lat = a_coords_dtostr_buffer X (lat ll);
               s_lon = a_coords_dtostr_buffer X (lon ll)
           in
           [''type='' @ DQUOTE # ''waypoint'' @ DQUOTE # '' latitude='' @ DQUOTE # s_lat
              @ DQUOTE # '' longitude='' @ DQUOTE # s_lon
              @ DQUOTE # '' name='' @ DQUOTE # slashdup name @ [DQUOTE]]
           @ write_double X ''altitude'' (wp_altitude wp)
           @ write_double X ''unixtime'' (wp_timestamp wp)
           @ write_double X ''speed'' (wp_speed wp)
           @ write_double X ''course'' (wp_course wp)
           @ write_double X ''magvar'' (wp_magvar wp)
           @ write_double X ''geoidheight'' (wp_geoidheight wp)
           @ write_string ''comment'' (wp_comment wp)
           @ write_string ''description'' (wp_description wp)
           @ write_string ''source'' (wp_source wp)
           @ write_string ''url'' (wp_url wp)
           @ write_string ''url_name'' (wp_url_name wp)
           @ write_string ''xtype'' (wp_type wp)
           @ write_positive_uint ''fix'' (wp_fix_mode wp)
           @ write_positive_uint ''sat'' (wp_nsats wp)
           @ write_double X ''hdop'' (wp_hdop wp)
           @ write_double X ''vdop'' (wp_vdop wp)
           @ write_double X ''pdop'' (wp_pdop wp)
           @ write_double X ''ageofdgpsdata'' (wp_ageofdgpsdata wp)
           @ write_positive_uint ''dgpsid'' (wp_dgpsid wp)
           @ (case wp_image wp of
                None \<Rightarrow> []
              | Some img \<Rightarrow>
                  (let tmp_image =
                         (if file_ref_format_relative X
                          then (case dirpath of
                                  None \<Rightarrow> None
                                | Some d \<Rightarrow> file_GetRelativeFilename X d img)
                          else None);
                       tmp_image = (case tmp_image of None \<Rightarrow> slashdup img | Some t \<Rightarrow> t)
                   in [fmt_field ''image'' tmp_image]))
           @ (if \<not> isnan (wp_image_direction wp)
              then [fmt_field ''image_direction'' (util_formatd_2f X (wp_image_direction wp)),
                    fmt_field ''image_direction_ref'' (fmt_d (sint (wp_image_direction_ref wp)))]
              else [])
           @ (case wp_symbol wp of
                None \<Rightarrow> []
              | Some symbol \<Rightarrow> [fmt_field ''symbol'' (g_utf8_strdown X symbol)])
           @ (if \<not> wp_visible wp then [fmt_field ''visible'' ''n''] else [])
           @ [[LF]]))"

definition a_gpspoint_write_trackpoint ::
  "('v, 'c) collab \<Rightarrow> bool \<Rightarrow> ('v, 'c) VikTrackpoint \<Rightarrow> string list" where
  "a_gpspoint_write_trackpoint X is_route tp =
     (let ll = vik_coord_to_latlon X (tp_coord tp);
          s_lat = a_coords_dtostr_buffer X (lat ll);
          s_lon = a_coords_dtostr_buffer X (lon ll)
      in
      [''type='' @ DQUOTE # (if is_route then ''route'' else ''track'') @ ''point'' @ DQUOTE
         # '' latitude='' @ DQUOTE # s_lat @ DQUOTE # '' longitude='' @ DQUOTE # s_lon @ [DQUOTE]]
      @ write_string ''name'' (tp_name tp)
      @ write_double X ''altitude'' (tp_altitude tp)
      @ write_double X ''unixtime'' (tp_timestamp tp)
      @ (if tp_newsegment tp then [fmt_field ''newsegment'' ''yes''] else [])
      @ (if \<not> isnan (tp_speed tp) \<or> \<not> isnan (tp_course tp) \<or> tp_nsats tp > 0 then
           [fmt_field ''extended'' ''yes'']
           @ write_double X ''speed'' (tp_speed tp)
           @ write_double X ''course'' (tp_course tp)
           @ write_positive_uint ''sat'' (tp_nsats tp)
           @ write_positive_uint ''fix'' (tp_fix_mode tp)
           @ write_double X ''hdop'' (tp_hdop tp)
           @ write_double X ''vdop'' (tp_vdop tp)
           @ write_double X ''pdop'' (tp_pdop tp)
         else [])
      @ [[LF]])"

definition a_gpspoint_write_track :: "('v, 'c) collab \<Rightarrow> ('v, 'c) VikTrack \<Rightarrow> string list" where
  "a_gpspoint_write_track X trk =
     (case trk_name trk of
        None \<Rightarrow> []
      | Some name \<Rightarrow>
          [''type='' @ DQUOTE # (if trk_is_route trk then ''route'' else ''track'') @ DQUOTE
             # '' name='' @ DQUOTE # slashdup name @ [DQUOTE]]
          @ write_string ''comment'' (trk_comment trk)
          @ write_string ''description'' (trk_description trk)
          @ write_string ''source'' (trk_source trk)
          @ write_positive_uint ''number'' (trk_number trk)
          @ write_string ''xtype'' (trk_type trk)
          @ (if trk_has_color trk
             then ['' color=#'' @ fmt_02x (unat (red (trk_color trk)) div 256)
                     @ fmt_02x (unat (green (trk_color trk)) div 256)
                     @ fmt_02x (unat (blue (trk_color trk)) div 256)]
             else [])
          @ write_positive_uint ''draw_name_mode'' (trk_draw_name_mode trk)
          @ write_positive_uint ''number_dist_labels'' (trk_max_number_dist_labels trk)
          @ (if \<not> trk_visible trk then [fmt_field ''visible'' ''n''] else [])
          @ [[LF]]
          @ concat (map (a_gpspoint_write_trackpoint X (trk_is_route trk)) (trk_trackpoints trk))
          @ [''type='' @ DQUOTE # (if trk_is_route trk then ''route'' else ''track'') @ ''end''
               @ [DQUOTE, LF]])"

text \<open>
  \<^verbatim>\<open>a_gpspoint_write_file\<close>.  Modelled from the spec:
  \<^verbatim>\<open>vu_sorted_list_from_hash_table\<close> with \<^verbatim>\<open>VL_SO_NONE\<close> is missing; it lists a
  collection in the order of insertion.
\<close>

definition a_gpspoint_write_file ::
  "('v, 'c) collab \<Rightarrow> ('v, 'c) VikTrwLayer \<Rightarrow> string option \<Rightarrow> string list" where
  "a_gpspoint_write_file X layer dirpath =
     [''type='' @ DQUOTE # ''waypointlist'' @ [DQUOTE, LF]]
     @ concat (map (a_gpspoint_write_waypoint X dirpath) (vik_trw_layer_get_waypoints layer))
     @ [''type='' @ DQUOTE # ''waypointlistend'' @ [DQUOTE, LF]]
     @ concat (map (a_gpspoint_write_track X) (vik_trw_layer_get_tracks layer))
     @ concat (map (a_gpspoint_write_track X) (vik_trw_layer_get_routes layer))"

section \<open>Auxiliary notions for the statements\<close>

text \<open>What \<^verbatim>\<open>slashdup\<close> does to a single byte.\<close>

definition nl_to_blank :: "char \<Rightarrow> char" where
  "nl_to_blank c = (if c = LF \<or> c = CR then SPC else c)"

definition needs_bs :: "char \<Rightarrow> bool" where
  "needs_bs c = (c = BSLASH \<or> c = DQUOTE)"

text \<open>
  An instance of the collaborators for the examples: the values of a \<^verbatim>\<open>gdouble\<close>
  are integers, read by \<open>atoi\<close> and printed in decimal, a coordinate is a
  latitude/longitude pair, paths are left as they are, and no colour parses.
\<close>

definition sample_collab :: "(int, int LatLon) collab" where
  "sample_collab =
     \<lparr> g_ascii_strtod = (\<lambda>s. Val (atoi s)),
       a_coords_dtostr_buffer = (\<lambda>d. case d of NAN \<Rightarrow> ''nan'' | Val i \<Rightarrow> fmt_d i),
       util_formatd_2f = (\<lambda>d. case d of NAN \<Rightarrow> ''nan'' | Val i \<Rightarrow> fmt_d i @ ''.00''),
       vik_coord_load_from_latlon = (\<lambda>ll. ll),
       vik_coord_to_latlon = (\<lambda>c. c),
       util_make_absolute_filename = (\<lambda>p d. None),
       file_ref_format_relative = False,
       file_GetRelativeFilename = (\<lambda>d p. Some p),
       gdk_color_parse = (\<lambda>s. None),
       g_utf8_strdown = map tolower \<rparr>"

definition sample_fields :: "int line_fields" where
  "sample_fields = line_fields_init \<lparr> lat = Val 0, lon = Val 0 \<rparr>"

definition sample_layer :: "(int, int LatLon) VikTrwLayer" where
  "sample_layer = \<lparr> trw_waypoints = [], trw_tracks = [] \<rparr>"

definition sample_reader :: "(int, int LatLon) reader" where
  "sample_reader =
     \<lparr> trw = sample_layer, current_track = None, have_read_something = False,
       line = sample_fields \<rparr>"

text \<open>The keys of the dispatcher, each with the length its test asks for.\<close>

definition all_keys :: "(nat \<times> string) list" where
  "all_keys =
     [(8, ''latitude''),
      (9, ''longitude''),
      (8, ''unixtime''),
      (8, ''altitude''),
      (4, ''type''),
      (4, ''name''),
      (7, ''comment''),
      (11, ''description''),
      (6, ''source''),
      (6, ''number''),
      (5, ''xtype''),
      (5, ''color''),
      (14, ''draw_name_mode''),
      (18, ''number_dist_labels''),
      (5, ''image''),
      (15, ''image_direction''),
      (19, ''image_direction_ref''),
      (7, ''visible''),
      (6, ''symbol''),
      (10, ''newsegment''),
      (8, ''extended''),
      (5, ''speed''),
      (6, ''course''),
      (3, ''sat''),
      (3, ''fix''),
      (4, ''hdop''),
      (4, ''vdop''),
      (4, ''pdop''),
      (6, ''magvar''),
      (11, ''geoidheight''),
      (3, ''url''),
      (8, ''url_name''),
      (13, ''ageofdgpsdata''),
      (6, ''dgpsid'')]"

text \<open>
  The keys by what a value does to the field: stored only while the field is still
  NULL, stored always, parsed as a number.  Each key comes with the way its field
  is read or set.
\<close>

definition first_wins_keys ::
  "(nat \<times> string \<times> ('v line_fields \<Rightarrow> string option) \<times> (string option \<Rightarrow> 'v line_fields \<Rightarrow> 'v line_fields)) list" where
  "first_wins_keys =
     [(4, ''name'', line_name, \<lambda>r g. g\<lparr>line_name := r\<rparr>),
      (7, ''comment'', line_comment, \<lambda>r g. g\<lparr>line_comment := r\<rparr>),
      (11, ''description'', line_description, \<lambda>r g. g\<lparr>line_description := r\<rparr>),
      (6, ''source'', line_source, \<lambda>r g. g\<lparr>line_source := r\<rparr>),
      (5, ''xtype'', line_xtype, \<lambda>r g. g\<lparr>line_xtype := r\<rparr>),
      (5, ''color'', line_color, \<lambda>r g. g\<lparr>line_color := r\<rparr>),
      (5, ''image'', line_image, \<lambda>r g. g\<lparr>line_image := r\<rparr>)]"

definition last_wins_string_keys ::
  "(nat \<times> string \<times> (string option \<Rightarrow> 'v line_fields \<Rightarrow> 'v line_fields)) list" where
  "last_wins_string_keys =
     [(3, ''url'', \<lambda>r g. g\<lparr>line_url := r\<rparr>),
      (8, ''url_name'', \<lambda>r g. g\<lparr>line_url_name := r\<rparr>)]"

definition double_keys ::
  "(nat \<times> string \<times> ('v gdouble \<Rightarrow> 'v line_fields \<Rightarrow> 'v line_fields)) list" where
  "double_keys =
     [(8, ''latitude'', \<lambda>d g. g\<lparr>line_latlon := (line_latlon g)\<lparr>lat := d\<rparr>\<rparr>),
      (9, ''longitude'', \<lambda>d g. g\<lparr>line_latlon := (line_latlon g)\<lparr>lon := d\<rparr>\<rparr>),
      (8, ''unixtime'', \<lambda>d g. g\<lparr>line_timestamp := d\<rparr>),
      (8, ''altitude'', \<lambda>d g. g\<lparr>line_altitude := d\<rparr>),
      (15, ''image_direction'', \<lambda>d g. g\<lparr>line_image_direction := d\<rparr>),
      (5, ''speed'', \<lambda>d g. g\<lparr>line_speed := d\<rparr>),
      (6, ''course'', \<lambda>d g. g\<lparr>line_course := d\<rparr>),
      (4, ''hdop'', \<lambda>d g. g\<lparr>line_hdop := d\<rparr>),
      (4, ''vdop'', \<lambda>d g. g\<lparr>line_vdop := d\<rparr>),
      (4, ''pdop'', \<lambda>d g. g\<lparr>line_pdop := d\<rparr>),
      (6, ''magvar'', \<lambda>d g. g\<lparr>line_magvar := d\<rparr>),
      (11, ''geoidheight'', \<lambda>d g. g\<lparr>line_geoidheight := d\<rparr>),
      (13, ''ageofdgpsdata'', \<lambda>d g. g\<lparr>line_ageofdgpsdata := d\<rparr>)]"

definition int_keys ::
  "(nat \<times> string \<times> (32 word \<Rightarrow> 'v line_fields \<Rightarrow> 'v line_fields)) list" where
  "int_keys =
     [(6, ''number'', \<lambda>n g. g\<lparr>line_number := n\<rparr>),
      (14, ''draw_name_mode'', \<lambda>n g. g\<lparr>line_name_label := n\<rparr>),
      (18, ''number_dist_labels'', \<lambda>n g. g\<lparr>line_dist_label := n\<rparr>),
      (19, ''image_direction_ref'', \<lambda>n g. g\<lparr>line_image_direction_ref := n\<rparr>),
      (3, ''sat'', \<lambda>n g. g\<lparr>line_sat := n\<rparr>),
      (3, ''fix'', \<lambda>n g. g\<lparr>line_fix := n\<rparr>),
      (6, ''dgpsid'', \<lambda>n g. g\<lparr>line_dgpsid := n\<rparr>)]"

section \<open>Escaping codec: unescaping an escaped string\<close>

lemma slashdup_append: "slashdup (xs @ ys) = slashdup xs @ slashdup ys"
  by (induction xs) auto

lemma length_slashdup: "length (slashdup s) = length s + length (filter needs_bs s)"
  by (induction s) (auto simp: needs_bs_def)

lemma rd_append_at: "rd (p @ c # r) (length p) = c"
  by (simp add: rd_def)

lemma deslash_count_slashdup:
  "length p + length (slashdup s) = len \<Longrightarrow> len < 65536 \<Longrightarrow>
   bs + length (filter needs_bs s) < 65536 \<Longrightarrow>
   deslash_count (p @ slashdup s) len (length p) bs
     = Some (len, bs + length (filter needs_bs s))"
proof (induction s arbitrary: p bs)
  case Nil
  then show ?case by (simp add: deslash_count.simps)
next
  case (Cons c cs)
  show ?case
  proof (cases "needs_bs c")
    case True
    then have sd: "slashdup (c # cs) = BSLASH # c # slashdup cs"
      by (auto simp: needs_bs_def)
    have lt: "length p + 2 \<le> len" using Cons.prems(1) sd by simp
    have ih: "deslash_count ((p @ [BSLASH, c]) @ slashdup cs) len (length (p @ [BSLASH, c])) (bs + 1)
        = Some (len, (bs + 1) + length (filter needs_bs cs))"
      using Cons.prems True sd by (intro Cons.IH) auto
    have m: "Suc (length p) mod 65536 = Suc (length p)"
       "Suc (Suc (length p)) mod 65536 = Suc (Suc (length p))" "Suc bs mod 65536 = Suc bs"
      using lt Cons.prems(2,3) True by auto
    show ?thesis
      unfolding sd
      apply (subst deslash_count.simps)
      using lt ih True by (simp add: rd_append_at m)
  next
    case False
    then have sd: "slashdup (c # cs) = nl_to_blank c # slashdup cs"
      by (auto simp: needs_bs_def nl_to_blank_def)
    have nb: "nl_to_blank c \<noteq> BSLASH" using False by (auto simp: needs_bs_def nl_to_blank_def)
    have lt: "length p + 1 \<le> len" using Cons.prems(1) sd by simp
    have ih: "deslash_count ((p @ [nl_to_blank c]) @ slashdup cs) len (length (p @ [nl_to_blank c])) bs
        = Some (len, bs + length (filter needs_bs cs))"
      using Cons.prems False sd by (intro Cons.IH) auto
    have m: "Suc (length p) mod 65536 = Suc (length p)"
      using lt Cons.prems(2) by auto
    show ?thesis
      unfolding sd
      apply (subst deslash_count.simps)
      using lt ih False nb by (simp add: rd_append_at m)
  qed
qed

lemma deslash_copy_slashdup:
  "length p + length (slashdup s) = len \<Longrightarrow> length rv + length s \<le> new_len \<Longrightarrow>
   deslash_copy (p @ slashdup s) len new_len (length p) False rv = rv @ map nl_to_blank s"
proof (induction s arbitrary: p rv)
  case Nil
  then show ?case by (subst deslash_copy.simps) simp
next
  case (Cons c cs)
  show ?case
  proof (cases "needs_bs c")
    case True
    then have sd: "slashdup (c # cs) = BSLASH # c # slashdup cs"
      by (auto simp: needs_bs_def)
    have cc: "nl_to_blank c = c" using True by (auto simp: needs_bs_def nl_to_blank_def)
    have lt: "length p + 2 \<le> len" "length rv < new_len" using Cons.prems sd by simp_all
    have ih: "deslash_copy ((p @ [BSLASH, c]) @ slashdup cs) len new_len (length (p @ [BSLASH, c])) False (rv @ [c])
        = (rv @ [c]) @ map nl_to_blank cs"
      using Cons.prems sd by (intro Cons.IH) auto
    have r2: "rd (p @ BSLASH # c # slashdup cs) (Suc (length p)) = c"
      using rd_append_at [of "p @ [BSLASH]" c "slashdup cs"] by simp
    show ?thesis
      unfolding sd
      apply (subst deslash_copy.simps)
      apply (simp add: rd_append_at lt)
      apply (subst deslash_copy.simps)
      using lt ih by (simp add: r2 cc)
  next
    case False
    then have sd: "slashdup (c # cs) = nl_to_blank c # slashdup cs"
      by (auto simp: needs_bs_def nl_to_blank_def)
    have nb: "nl_to_blank c \<noteq> BSLASH" using False by (auto simp: needs_bs_def nl_to_blank_def)
    have lt: "length p + 1 \<le> len" "length rv < new_len" using Cons.prems sd by simp_all
    have ih: "deslash_copy ((p @ [nl_to_blank c]) @ slashdup cs) len new_len (length (p @ [nl_to_blank c])) False (rv @ [nl_to_blank c])
        = (rv @ [nl_to_blank c]) @ map nl_to_blank cs"
      using Cons.prems sd by (intro Cons.IH) auto
    show ?thesis
      unfolding sd
      apply (subst deslash_copy.simps)
      using lt ih nb by (simp add: rd_append_at)
  qed
qed

lemma slashdup_last_bslash:
  assumes "s \<noteq> []" "rd (slashdup s) (length (slashdup s) - 1) = BSLASH"
  shows "length (slashdup s) \<noteq> 1 \<and> rd (slashdup s) (length (slashdup s) - 2) = BSLASH"
proof -
  obtain xs c where s: "s = xs @ [c]" using assms(1) by (metis rev_exhaust)
  have sd: "slashdup s = slashdup xs @ slashdup [c]" by (simp add: s slashdup_append)
  show ?thesis
  proof (cases "needs_bs c")
    case True
    then have e: "slashdup s = slashdup xs @ [BSLASH, c]" by (auto simp: sd needs_bs_def)
    have "c = BSLASH" using assms(2) by (simp add: e rd_def nth_append)
    then show ?thesis by (simp add: e rd_def nth_append)
  next
    case False
    then have e: "slashdup s = slashdup xs @ [nl_to_blank c]" by (auto simp: sd needs_bs_def nl_to_blank_def)
    have "nl_to_blank c \<noteq> BSLASH" using False by (auto simp: needs_bs_def nl_to_blank_def)
    then show ?thesis using assms(2) by (simp add: e rd_def nth_append)
  qed
qed

lemma slashdup_replicate_a: "slashdup (replicate n (CHR ''a'')) = replicate n (CHR ''a'')"
  by (induction n) auto

text \<open>
  Claim C2, as stated: for every string \<open>s\<close>, \<^verbatim>\<open>deslashndup\<close> of \<^verbatim>\<open>slashdup(s)\<close> with
  its full length is \<open>s\<close> with line feeds and carriage returns turned into
  blanks.  This fails for the empty string, where \<^verbatim>\<open>deslashndup\<close> returns NULL and
  not an empty string, and for a string whose escaped form has 65536 bytes, whose
  length is 0 as a \<^verbatim>\<open>guint16\<close>.
\<close>

theorem C2_escape_roundtrip_counterexample:
  "deslashndup (slashdup []) (length (slashdup [])) \<noteq> Some (Some [])
   \<and> deslashndup (slashdup (replicate 65536 (CHR ''a'')))
         (length (slashdup (replicate 65536 (CHR ''a''))))
       \<noteq> Some (Some (map (\<lambda>c. if c = LF \<or> c = CR then SPC else c) (replicate 65536 (CHR ''a''))))"
  by (simp add: deslashndup_def slashdup_replicate_a)

text \<open>
  Claim C2, amended: for every non-empty string \<open>s\<close> whose escaped form is shorter
  than 65536 bytes, \<^verbatim>\<open>deslashndup\<close> applied to \<^verbatim>\<open>slashdup(s)\<close> and its length returns
  a string, and that string is \<open>s\<close> with every line feed and carriage return
  replaced by a blank.
\<close>

theorem C2_escape_roundtrip:
  assumes "s \<noteq> []" "length (slashdup s) < 65536"
  shows "deslashndup (slashdup s) (length (slashdup s))
           = Some (Some (map (\<lambda>c. if c = LF \<or> c = CR then SPC else c) s))"
proof -
  let ?t = "slashdup s"
  let ?k = "length (filter needs_bs s)"
  have len: "length ?t = length s + ?k" by (rule length_slashdup)
  have pos: "0 < length ?t" using assms(1) len by simp
  have cnt: "deslash_count ?t (length ?t) 0 0 = Some (length ?t, ?k)"
    using deslash_count_slashdup [of "[]" s "length ?t" 0] assms(2) len by simp
  have nodec: "\<not> (rd ?t (length ?t - 1) = BSLASH \<and> (length ?t = 1 \<or> rd ?t (length ?t - 2) \<noteq> BSLASH))"
    using slashdup_last_bslash [OF assms(1)] by blast
  have nl: "(length ?t + 65536 - ?k) mod 65536 = length s" using len assms(2) by simp
  have cp: "deslash_copy ?t (length ?t) (length s) 0 False [] = map nl_to_blank s"
    using deslash_copy_slashdup [of "[]" s "length ?t" "[]" "length s"] by simp
  have nlb: "map nl_to_blank s = map (\<lambda>c. if c = LF \<or> c = CR then SPC else c) s"
    by (simp add: nl_to_blank_def)
  have m: "length ?t mod 65536 = length ?t" "\<not> length ?t < 1"
    using pos assms(2) by simp_all
  show ?thesis
    unfolding deslashndup_def Let_def
    by (simp only: m cnt if_False bind.bind_lunit prod.case if_not_P [OF nodec] nl cp nlb
         length_map if_True) simp
qed

theorem C2_escape_roundtrip_witness:
  "[CHR ''a'', LF, DQUOTE, BSLASH] \<noteq> []
   \<and> length (slashdup [CHR ''a'', LF, DQUOTE, BSLASH]) < 65536
   \<and> deslashndup (slashdup [CHR ''a'', LF, DQUOTE, BSLASH])
         (length (slashdup [CHR ''a'', LF, DQUOTE, BSLASH]))
       = Some (Some [CHR ''a'', SPC, DQUOTE, BSLASH])"
  using C2_escape_roundtrip [of "[CHR ''a'', LF, DQUOTE, BSLASH]"] by simp

section \<open>The dispatcher, key by key\<close>

lemma strncasecmp_iff:
  "NUL \<notin> set name \<Longrightarrow> (\<forall>c\<in>set name. tolower c = c) \<Longrightarrow> n = length name \<Longrightarrow>
   (strncasecmp key name n = 0) = (map tolower (take n key) = name)"
proof (induction name arbitrary: key n)
  case Nil
  then show ?case by simp
next
  case (Cons a name)
  then obtain m where n: "n = Suc m" "m = length name" by auto
  have a: "a \<noteq> NUL" "tolower a = a" using Cons.prems by auto
  show ?case
  proof (cases key)
    case Nil
    have "tolower NUL = NUL" by (simp add: tolower_def)
    moreover have "(of_char a :: int) \<noteq> 0"
      using a(1) of_char_eq_iff [of a NUL, where ?'a = int] by simp
    ultimately show ?thesis using a n by (auto simp: Nil rd_def Let_def)
  next
    case (Cons k ks)
    have ih: "(strncasecmp ks name m = 0) = (map tolower (take m ks) = name)"
      using Cons.prems n by (intro Cons.IH) auto
    show ?thesis using ih a n by (auto simp: Cons rd_def Let_def)
  qed
qed


lemma matches_iff:
  "NUL \<notin> set word \<Longrightarrow> (\<forall>c\<in>set word. tolower c = c) \<Longrightarrow> n = length word \<Longrightarrow>
   matches s len n word = (len = n \<and> map tolower (take n s) = word)"
  unfolding matches_def using strncasecmp_iff [of word n s] by auto

lemma matches_words:
  "matches s len 3 ''fix'' = (len = 3 \<and> map tolower (take 3 s) = ''fix'')"
  "matches s len 3 ''sat'' = (len = 3 \<and> map tolower (take 3 s) = ''sat'')"
  "matches s len 3 ''url'' = (len = 3 \<and> map tolower (take 3 s) = ''url'')"
  "matches s len 4 ''hdop'' = (len = 4 \<and> map tolower (take 4 s) = ''hdop'')"
  "matches s len 4 ''name'' = (len = 4 \<and> map tolower (take 4 s) = ''name'')"
  "matches s len 4 ''pdop'' = (len = 4 \<and> map tolower (take 4 s) = ''pdop'')"
  "matches s len 4 ''type'' = (len = 4 \<and> map tolower (take 4 s) = ''type'')"
  "matches s len 4 ''vdop'' = (len = 4 \<and> map tolower (take 4 s) = ''vdop'')"
  "matches s len 5 ''color'' = (len = 5 \<and> map tolower (take 5 s) = ''color'')"
  "matches s len 5 ''image'' = (len = 5 \<and> map tolower (take 5 s) = ''image'')"
  "matches s len 5 ''route'' = (len = 5 \<and> map tolower (take 5 s) = ''route'')"
  "matches s len 5 ''speed'' = (len = 5 \<and> map tolower (take 5 s) = ''speed'')"
  "matches s len 5 ''track'' = (len = 5 \<and> map tolower (take 5 s) = ''track'')"
  "matches s len 5 ''xtype'' = (len = 5 \<and> map tolower (take 5 s) = ''xtype'')"
  "matches s len 6 ''course'' = (len = 6 \<and> map tolower (take 6 s) = ''course'')"
  "matches s len 6 ''dgpsid'' = (len = 6 \<and> map tolower (take 6 s) = ''dgpsid'')"
  "matches s len 6 ''magvar'' = (len = 6 \<and> map tolower (take 6 s) = ''magvar'')"
  "matches s len 6 ''number'' = (len = 6 \<and> map tolower (take 6 s) = ''number'')"
  "matches s len 6 ''source'' = (len = 6 \<and> map tolower (take 6 s) = ''source'')"
  "matches s len 6 ''symbol'' = (len = 6 \<and> map tolower (take 6 s) = ''symbol'')"
  "matches s len 7 ''comment'' = (len = 7 \<and> map tolower (take 7 s) = ''comment'')"
  "matches s len 7 ''visible'' = (len = 7 \<and> map tolower (take 7 s) = ''visible'')"
  "matches s len 8 ''altitude'' = (len = 8 \<and> map tolower (take 8 s) = ''altitude'')"
  "matches s len 8 ''extended'' = (len = 8 \<and> map tolower (take 8 s) = ''extended'')"
  "matches s len 8 ''latitude'' = (len = 8 \<and> map tolower (take 8 s) = ''latitude'')"
  "matches s len 8 ''routeend'' = (len = 8 \<and> map tolower (take 8 s) = ''routeend'')"
  "matches s len 8 ''trackend'' = (len = 8 \<and> map tolower (take 8 s) = ''trackend'')"
  "matches s len 8 ''unixtime'' = (len = 8 \<and> map tolower (take 8 s) = ''unixtime'')"
  "matches s len 8 ''url_name'' = (len = 8 \<and> map tolower (take 8 s) = ''url_name'')"
  "matches s len 8 ''waypoint'' = (len = 8 \<and> map tolower (take 8 s) = ''waypoint'')"
  "matches s len 9 ''longitude'' = (len = 9 \<and> map tolower (take 9 s) = ''longitude'')"
  "matches s len 10 ''newsegment'' = (len = 10 \<and> map tolower (take 10 s) = ''newsegment'')"
  "matches s len 10 ''routepoint'' = (len = 10 \<and> map tolower (take 10 s) = ''routepoint'')"
  "matches s len 10 ''trackpoint'' = (len = 10 \<and> map tolower (take 10 s) = ''trackpoint'')"
  "matches s len 11 ''description'' = (len = 11 \<and> map tolower (take 11 s) = ''description'')"
  "matches s len 11 ''geoidheight'' = (len = 11 \<and> map tolower (take 11 s) = ''geoidheight'')"
  "matches s len 13 ''ageofdgpsdata'' = (len = 13 \<and> map tolower (take 13 s) = ''ageofdgpsdata'')"
  "matches s len 14 ''draw_name_mode'' = (len = 14 \<and> map tolower (take 14 s) = ''draw_name_mode'')"
  "matches s len 15 ''image_direction'' = (len = 15 \<and> map tolower (take 15 s) = ''image_direction'')"
  "matches s len 18 ''number_dist_labels'' = (len = 18 \<and> map tolower (take 18 s) = ''number_dist_labels'')"
  "matches s len 19 ''image_direction_ref'' = (len = 19 \<and> map tolower (take 19 s) = ''image_direction_ref'')"
  by (simp_all add: matches_iff tolower_def)

lemma dispatch_NULL:
  "gpspoint_process_key_and_value X g key key_len None value_len =
     Some (if matches key key_len 4 ''type'' then g\<lparr>line_type := GPSPOINT_TYPE_NONE\<rparr> else g)"
  unfolding gpspoint_process_key_and_value_def by simp

lemma dispatch_latitude:
  "matches key key_len 8 ''latitude'' \<Longrightarrow>
   gpspoint_process_key_and_value X g key key_len (Some v) value_len =
       Some (g\<lparr>line_latlon := (line_latlon g)\<lparr>lat := g_ascii_strtod X v\<rparr>\<rparr>)"
  unfolding gpspoint_process_key_and_value_def by (simp add: matches_words)

lemma dispatch_longitude:
  "matches key key_len 9 ''longitude'' \<Longrightarrow>
   gpspoint_process_key_and_value X g key key_len (Some v) value_len =
       Some (g\<lparr>line_latlon := (line_latlon g)\<lparr>lon := g_ascii_strtod X v\<rparr>\<rparr>)"
  unfolding gpspoint_process_key_and_value_def by (simp add: matches_words)

lemma dispatch_unixtime:
  "matches key key_len 8 ''unixtime'' \<Longrightarrow>
   gpspoint_process_key_and_value X g key key_len (Some v) value_len =
       Some (g\<lparr>line_timestamp := g_ascii_strtod X v\<rparr>)"
  unfolding gpspoint_process_key_and_value_def by (simp add: matches_words)

lemma dispatch_altitude:
  "matches key key_len 8 ''altitude'' \<Longrightarrow>
   gpspoint_process_key_and_value X g key key_len (Some v) value_len =
       Some (g\<lparr>line_altitude := g_ascii_strtod X v\<rparr>)"
  unfolding gpspoint_process_key_and_value_def by (simp add: matches_words)

lemma dispatch_name:
  "matches key key_len 4 ''name'' \<Longrightarrow>
   gpspoint_process_key_and_value X g key key_len (Some v) value_len =
       (if line_name g = None
        then map_option (\<lambda>r. g\<lparr>line_name := r\<rparr>) (deslashndup v value_len)
        else Some g)"
  unfolding gpspoint_process_key_and_value_def by (simp add: matches_words)

lemma dispatch_comment:
  "matches key key_len 7 ''comment'' \<Longrightarrow>
   gpspoint_process_key_and_value X g key key_len (Some v) value_len =
       (if line_comment g = None
        then map_option (\<lambda>r. g\<lparr>line_comment := r\<rparr>) (deslashndup v value_len)
        else Some g)"
  unfolding gpspoint_process_key_and_value_def by (simp add: matches_words)

lemma dispatch_description:
  "matches key key_len 11 ''description'' \<Longrightarrow>
   gpspoint_process_key_and_value X g key key_len (Some v) value_len =
       (if line_description g = None
        then map_option (\<lambda>r. g\<lparr>line_description := r\<rparr>) (deslashndup v value_len)
        else Some g)"
  unfolding gpspoint_process_key_and_value_def by (simp add: matches_words)

lemma dispatch_source:
  "matches key key_len 6 ''source'' \<Longrightarrow>
   gpspoint_process_key_and_value X g key key_len (Some v) value_len =
       (if line_source g = None
        then map_option (\<lambda>r. g\<lparr>line_source := r\<rparr>) (deslashndup v value_len)
        else Some g)"
  unfolding gpspoint_process_key_and_value_def by (simp add: matches_words)

lemma dispatch_number:
  "matches key key_len 6 ''number'' \<Longrightarrow>
   gpspoint_process_key_and_value X g key key_len (Some v) value_len =
       Some (g\<lparr>line_number := word_of_int (atoi v)\<rparr>)"
  unfolding gpspoint_process_key_and_value_def by (simp add: matches_words)

lemma dispatch_xtype:
  "matches key key_len 5 ''xtype'' \<Longrightarrow>
   gpspoint_process_key_and_value X g key key_len (Some v) value_len =
       (if line_xtype g = None
        then map_option (\<lambda>r. g\<lparr>line_xtype := r\<rparr>) (deslashndup v value_len)
        else Some g)"
  unfolding gpspoint_process_key_and_value_def by (simp add: matches_words)

lemma dispatch_color:
  "matches key key_len 5 ''color'' \<Longrightarrow>
   gpspoint_process_key_and_value X g key key_len (Some v) value_len =
       (if line_color g = None
        then map_option (\<lambda>r. g\<lparr>line_color := r\<rparr>) (deslashndup v value_len)
        else Some g)"
  unfolding gpspoint_process_key_and_value_def by (simp add: matches_words)

lemma dispatch_draw_name_mode:
  "matches key key_len 14 ''draw_name_mode'' \<Longrightarrow>
   gpspoint_process_key_and_value X g key key_len (Some v) value_len =
       Some (g\<lparr>line_name_label := word_of_int (atoi v)\<rparr>)"
  unfolding gpspoint_process_key_and_value_def by (simp add: matches_words)

lemma dispatch_number_dist_labels:
  "matches key key_len 18 ''number_dist_labels'' \<Longrightarrow>
   gpspoint_process_key_and_value X g key key_len (Some v) value_len =
       Some (g\<lparr>line_dist_label := word_of_int (atoi v)\<rparr>)"
  unfolding gpspoint_process_key_and_value_def by (simp add: matches_words)

lemma dispatch_image:
  "matches key key_len 5 ''image'' \<Longrightarrow>
   gpspoint_process_key_and_value X g key key_len (Some v) value_len =
       (if line_image g = None
        then map_option (\<lambda>r. g\<lparr>line_image := r\<rparr>) (deslashndup v value_len)
        else Some g)"
  unfolding gpspoint_process_key_and_value_def by (simp add: matches_words)

lemma dispatch_image_direction:
  "matches key key_len 15 ''image_direction'' \<Longrightarrow>
   gpspoint_process_key_and_value X g key key_len (Some v) value_len =
       Some (g\<lparr>line_image_direction := g_ascii_strtod X v\<rparr>)"
  unfolding gpspoint_process_key_and_value_def by (simp add: matches_words)

lemma dispatch_image_direction_ref:
  "matches key key_len 19 ''image_direction_ref'' \<Longrightarrow>
   gpspoint_process_key_and_value X g key key_len (Some v) value_len =
       Some (g\<lparr>line_image_direction_ref := word_of_int (atoi v)\<rparr>)"
  unfolding gpspoint_process_key_and_value_def by (simp add: matches_words)

lemma dispatch_symbol:
  "matches key key_len 6 ''symbol'' \<Longrightarrow>
   gpspoint_process_key_and_value X g key key_len (Some v) value_len =
       Some (g\<lparr>line_symbol := Some (g_strndup v value_len)\<rparr>)"
  unfolding gpspoint_process_key_and_value_def by (simp add: matches_words)

lemma dispatch_newsegment:
  "matches key key_len 10 ''newsegment'' \<Longrightarrow>
   gpspoint_process_key_and_value X g key key_len (Some v) value_len =
       Some (g\<lparr>line_newsegment := True\<rparr>)"
  unfolding gpspoint_process_key_and_value_def by (simp add: matches_words)

lemma dispatch_extended:
  "matches key key_len 8 ''extended'' \<Longrightarrow>
   gpspoint_process_key_and_value X g key key_len (Some v) value_len =
       Some (g\<lparr>line_extended := True\<rparr>)"
  unfolding gpspoint_process_key_and_value_def by (simp add: matches_words)

lemma dispatch_speed:
  "matches key key_len 5 ''speed'' \<Longrightarrow>
   gpspoint_process_key_and_value X g key key_len (Some v) value_len =
       Some (g\<lparr>line_speed := g_ascii_strtod X v\<rparr>)"
  unfolding gpspoint_process_key_and_value_def by (simp add: matches_words)

lemma dispatch_course:
  "matches key key_len 6 ''course'' \<Longrightarrow>
   gpspoint_process_key_and_value X g key key_len (Some v) value_len =
       Some (g\<lparr>line_course := g_ascii_strtod X v\<rparr>)"
  unfolding gpspoint_process_key_and_value_def by (simp add: matches_words)

lemma dispatch_sat:
  "matches key key_len 3 ''sat'' \<Longrightarrow>
   gpspoint_process_key_and_value X g key key_len (Some v) value_len =
       Some (g\<lparr>line_sat := word_of_int (atoi v)\<rparr>)"
  unfolding gpspoint_process_key_and_value_def by (simp add: matches_words)

lemma dispatch_fix:
  "matches key key_len 3 ''fix'' \<Longrightarrow>
   gpspoint_process_key_and_value X g key key_len (Some v) value_len =
       Some (g\<lparr>line_fix := word_of_int (atoi v)\<rparr>)"
  unfolding gpspoint_process_key_and_value_def by (simp add: matches_words)

lemma dispatch_hdop:
  "matches key key_len 4 ''hdop'' \<Longrightarrow>
   gpspoint_process_key_and_value X g key key_len (Some v) value_len =
       Some (g\<lparr>line_hdop := g_ascii_strtod X v\<rparr>)"
  unfolding gpspoint_process_key_and_value_def by (simp add: matches_words)

lemma dispatch_vdop:
  "matches key key_len 4 ''vdop'' \<Longrightarrow>
   gpspoint_process_key_and_value X g key key_len (Some v) value_len =
       Some (g\<lparr>line_vdop := g_ascii_strtod X v\<rparr>)"
  unfolding gpspoint_process_key_and_value_def by (simp add: matches_words)

lemma dispatch_pdop:
  "matches key key_len 4 ''pdop'' \<Longrightarrow>
   gpspoint_process_key_and_value X g key key_len (Some v) value_len =
       Some (g\<lparr>line_pdop := g_ascii_strtod X v\<rparr>)"
  unfolding gpspoint_process_key_and_value_def by (simp add: matches_words)

lemma dispatch_magvar:
  "matches key key_len 6 ''magvar'' \<Longrightarrow>
   gpspoint_process_key_and_value X g key key_len (Some v) value_len =
       Some (g\<lparr>line_magvar := g_ascii_strtod X v\<rparr>)"
  unfolding gpspoint_process_key_and_value_def by (simp add: matches_words)

lemma dispatch_geoidheight:
  "matches key key_len 11 ''geoidheight'' \<Longrightarrow>
   gpspoint_process_key_and_value X g key key_len (Some v) value_len =
       Some (g\<lparr>line_geoidheight := g_ascii_strtod X v\<rparr>)"
  unfolding gpspoint_process_key_and_value_def by (simp add: matches_words)

lemma dispatch_url:
  "matches key key_len 3 ''url'' \<Longrightarrow>
   gpspoint_process_key_and_value X g key key_len (Some v) value_len =
       map_option (\<lambda>r. g\<lparr>line_url := r\<rparr>) (deslashndup v value_len)"
  unfolding gpspoint_process_key_and_value_def by (simp add: matches_words)

lemma dispatch_url_name:
  "matches key key_len 8 ''url_name'' \<Longrightarrow>
   gpspoint_process_key_and_value X g key key_len (Some v) value_len =
       map_option (\<lambda>r. g\<lparr>line_url_name := r\<rparr>) (deslashndup v value_len)"
  unfolding gpspoint_process_key_and_value_def by (simp add: matches_words)

lemma dispatch_ageofdgpsdata:
  "matches key key_len 13 ''ageofdgpsdata'' \<Longrightarrow>
   gpspoint_process_key_and_value X g key key_len (Some v) value_len =
       Some (g\<lparr>line_ageofdgpsdata := g_ascii_strtod X v\<rparr>)"
  unfolding gpspoint_process_key_and_value_def by (simp add: matches_words)

lemma dispatch_dgpsid:
  "matches key key_len 6 ''dgpsid'' \<Longrightarrow>
   gpspoint_process_key_and_value X g key key_len (Some v) value_len =
       Some (g\<lparr>line_dgpsid := word_of_int (atoi v)\<rparr>)"
  unfolding gpspoint_process_key_and_value_def by (simp add: matches_words)

lemma dispatch_visible:
  "matches key key_len 7 ''visible'' \<Longrightarrow>
   gpspoint_process_key_and_value X g key key_len (Some v) value_len =
     Some (if rd v 0 \<noteq> CHR ''y'' \<and> rd v 0 \<noteq> CHR ''Y'' \<and> rd v 0 \<noteq> CHR ''t'' \<and> rd v 0 \<noteq> CHR ''T''
           then g\<lparr>line_visible := False\<rparr> else g)"
  unfolding gpspoint_process_key_and_value_def by (simp add: matches_words)

lemma dispatch_type:
  "matches key key_len 4 ''type'' \<Longrightarrow>
   gpspoint_process_key_and_value X g key key_len (Some v) value_len =
     Some (g\<lparr>line_type :=
       (if matches v value_len 5 ''track'' then GPSPOINT_TYPE_TRACK
        else if matches v value_len 8 ''trackend'' then GPSPOINT_TYPE_TRACK_END
        else if matches v value_len 10 ''trackpoint'' then GPSPOINT_TYPE_TRACKPOINT
        else if matches v value_len 8 ''waypoint'' then GPSPOINT_TYPE_WAYPOINT
        else if matches v value_len 5 ''route'' then GPSPOINT_TYPE_ROUTE
        else if matches v value_len 8 ''routeend'' then GPSPOINT_TYPE_ROUTE_END
        else if matches v value_len 10 ''routepoint'' then GPSPOINT_TYPE_ROUTEPOINT
        else GPSPOINT_TYPE_NONE)\<rparr>)"
  unfolding gpspoint_process_key_and_value_def by (simp add: matches_words)

lemmas dispatch_key = dispatch_latitude dispatch_longitude dispatch_unixtime dispatch_altitude dispatch_name dispatch_comment dispatch_description dispatch_source dispatch_number dispatch_xtype dispatch_color dispatch_draw_name_mode dispatch_number_dist_labels dispatch_image dispatch_image_direction dispatch_image_direction_ref dispatch_symbol dispatch_newsegment dispatch_extended dispatch_speed dispatch_course dispatch_sat dispatch_fix dispatch_hdop dispatch_vdop dispatch_pdop dispatch_magvar dispatch_geoidheight dispatch_url dispatch_url_name dispatch_ageofdgpsdata dispatch_dgpsid dispatch_visible dispatch_type

lemma dispatch_type_ex:
  "matches key key_len 4 ''type'' \<Longrightarrow>
   \<exists>t. gpspoint_process_key_and_value X g key key_len value value_len = Some (g\<lparr>line_type := t\<rparr>)"
proof (cases "value")
  case None
  assume "matches key key_len 4 ''type''"
  then show ?thesis unfolding None dispatch_NULL by auto
next
  case (Some v)
  assume "matches key key_len 4 ''type''"
  then show ?thesis unfolding Some by (subst dispatch_type) blast+
qed

lemma dispatch_other:
  assumes "\<forall>(n, w) \<in> set all_keys. \<not> matches key key_len n w"
  shows "gpspoint_process_key_and_value X g key key_len value value_len = Some g"
  using assms unfolding gpspoint_process_key_and_value_def all_keys_def
  by simp

lemma dispatch_key_cases:
  obtains (none) "\<forall>(n, w) \<in> set all_keys. \<not> matches key key_len n w"
  | (k_latitude) "matches key key_len 8 ''latitude''"
  | (k_longitude) "matches key key_len 9 ''longitude''"
  | (k_unixtime) "matches key key_len 8 ''unixtime''"
  | (k_altitude) "matches key key_len 8 ''altitude''"
  | (k_type) "matches key key_len 4 ''type''"
  | (k_name) "matches key key_len 4 ''name''"
  | (k_comment) "matches key key_len 7 ''comment''"
  | (k_description) "matches key key_len 11 ''description''"
  | (k_source) "matches key key_len 6 ''source''"
  | (k_number) "matches key key_len 6 ''number''"
  | (k_xtype) "matches key key_len 5 ''xtype''"
  | (k_color) "matches key key_len 5 ''color''"
  | (k_draw_name_mode) "matches key key_len 14 ''draw_name_mode''"
  | (k_number_dist_labels) "matches key key_len 18 ''number_dist_labels''"
  | (k_image) "matches key key_len 5 ''image''"
  | (k_image_direction) "matches key key_len 15 ''image_direction''"
  | (k_image_direction_ref) "matches key key_len 19 ''image_direction_ref''"
  | (k_visible) "matches key key_len 7 ''visible''"
  | (k_symbol) "matches key key_len 6 ''symbol''"
  | (k_newsegment) "matches key key_len 10 ''newsegment''"
  | (k_extended) "matches key key_len 8 ''extended''"
  | (k_speed) "matches key key_len 5 ''speed''"
  | (k_course) "matches key key_len 6 ''course''"
  | (k_sat) "matches key key_len 3 ''sat''"
  | (k_fix) "matches key key_len 3 ''fix''"
  | (k_hdop) "matches key key_len 4 ''hdop''"
  | (k_vdop) "matches key key_len 4 ''vdop''"
  | (k_pdop) "matches key key_len 4 ''pdop''"
  | (k_magvar) "matches key key_len 6 ''magvar''"
  | (k_geoidheight) "matches key key_len 11 ''geoidheight''"
  | (k_url) "matches key key_len 3 ''url''"
  | (k_url_name) "matches key key_len 8 ''url_name''"
  | (k_ageofdgpsdata) "matches key key_len 13 ''ageofdgpsdata''"
  | (k_dgpsid) "matches key key_len 6 ''dgpsid''"
  unfolding all_keys_def by simp blast

section \<open>The tokens\<close>

lemma key_end_loop_found:
  "j < m \<Longrightarrow> m < len \<Longrightarrow> rd tag m = EQUALS \<Longrightarrow>
   (\<forall>i. j < i \<and> i < m \<longrightarrow> rd tag i \<noteq> EQUALS) \<Longrightarrow> key_end_loop tag len j = m"
proof (induction "m - j" arbitrary: j)
  case 0
  then show ?case by simp
next
  case (Suc d)
  show ?case
  proof (cases "Suc j = m")
    case True
    then show ?thesis using Suc.prems by (subst key_end_loop.simps) auto
  next
    case False
    then have lt: "Suc j < m" using Suc.prems by simp
    have ne: "rd tag (Suc j) \<noteq> EQUALS" using Suc.prems lt by simp
    have ih: "key_end_loop tag len (Suc j) = m"
      using Suc.hyps Suc.prems lt by (intro Suc.hyps(1)) auto
    show ?thesis using lt Suc.prems ne ih by (subst key_end_loop.simps) auto
  qed
qed

lemma key_end_loop_key:
  assumes "k \<noteq> []" "EQUALS \<notin> set (tl k)" "length k < len"
  shows "key_end_loop (k @ EQUALS # r) len 0 = length k"
proof (rule key_end_loop_found)
  show "0 < length k" using assms by simp
  show "length k < len" by fact
  show "rd (k @ EQUALS # r) (length k) = EQUALS" by (simp add: rd_def)
  show "\<forall>i. 0 < i \<and> i < length k \<longrightarrow> rd (k @ EQUALS # r) i \<noteq> EQUALS"
  proof (intro allI impI)
    fix i assume i: "0 < i \<and> i < length k"
    then have "k ! i = tl k ! (i - 1)" by (cases k) (auto simp: nth_Cons')
    moreover have "tl k ! (i - 1) \<in> set (tl k)" using i by (intro nth_mem) auto
    ultimately show "rd (k @ EQUALS # r) i \<noteq> EQUALS"
      using i assms(2) by (auto simp: rd_def nth_append)
  qed
qed

lemma process_tag_empty_quoted:
  assumes "k \<noteq> []" "EQUALS \<notin> set (tl k)"
  shows "gpspoint_process_tag X g (k @ EQUALS # DQUOTE # DQUOTE # rest) (length k + 3)
           = gpspoint_process_key_and_value X g (k @ EQUALS # DQUOTE # DQUOTE # rest) (length k) None 0"
proof -
  have ke: "key_end_loop (k @ EQUALS # DQUOTE # DQUOTE # rest) (length k + 3) 0 = length k"
    using assms by (intro key_end_loop_key) auto
  show ?thesis
    unfolding gpspoint_process_tag_def ke Let_def
    by (simp add: rd_def nth_append)
qed

lemma process_tag_quoted:
  assumes "k \<noteq> []" "EQUALS \<notin> set (tl k)" "v \<noteq> []" "hd v \<noteq> DQUOTE"
  shows "gpspoint_process_tag X g (k @ EQUALS # DQUOTE # v @ DQUOTE # rest) (length k + length v + 3)
           = gpspoint_process_key_and_value X g (k @ EQUALS # DQUOTE # v @ DQUOTE # rest) (length k)
               (Some (v @ DQUOTE # rest)) (length v)"
proof -
  let ?tag = "k @ EQUALS # DQUOTE # v @ DQUOTE # rest"
  have ke: "key_end_loop ?tag (length k + length v + 3) 0 = length k"
    using assms by (intro key_end_loop_key) auto
  have r1: "rd ?tag (length k + 1) = DQUOTE" by (simp add: rd_def nth_append)
  have r2: "rd ?tag (length k + 1 + 1) \<noteq> DQUOTE"
    using assms(3,4) by (cases v) (auto simp: rd_def nth_append)
  have r3: "rd ?tag (length k + length v + 3 - 1) = DQUOTE"
    by (simp add: rd_def nth_append nth_Cons')
  have dr: "drop (length k + 1 + 1) ?tag = v @ DQUOTE # rest" by simp
  have df: "length k + length v + 3 - 1 - (length k + 1 + 1) = length v" by simp
  have nn: "\<not> int (length k + length v + 3 - 1) - int (length k + 1 + 1) < 0" by simp
  have ne: "length k \<noteq> length k + length v + 3" "length k \<noteq> length k + length v + 3 + 1" by simp_all
  show ?thesis
    unfolding gpspoint_process_tag_def ke Let_def
    by (simp only: ne r1 r2 r3 dr df nn if_True if_False) simp
qed

lemma process_tag_unquoted:
  assumes "k \<noteq> []" "EQUALS \<notin> set (tl k)" "rd (v @ rest) 0 \<noteq> DQUOTE"
  shows "gpspoint_process_tag X g (k @ EQUALS # v @ rest) (length k + 1 + length v)
           = gpspoint_process_key_and_value X g (k @ EQUALS # v @ rest) (length k)
               (Some (v @ rest)) (length v)"
proof -
  let ?tag = "k @ EQUALS # v @ rest"
  have ke: "key_end_loop ?tag (length k + 1 + length v) 0 = length k"
    using assms by (intro key_end_loop_key) auto
  have r1: "rd ?tag (length k + 1) \<noteq> DQUOTE"
    using assms(3) by (simp add: rd_def nth_append split: if_splits)
  have dr: "drop (length k + 1) ?tag = v @ rest" by simp
  have df: "length k + 1 + length v - (length k + 1) = length v" by simp
  have nn: "\<not> int (length k + 1 + length v) - int (length k + 1) < 0" by simp
  have ne: "length k \<noteq> length k + 1 + length v" "length k \<noteq> length k + 1 + length v + 1" by simp_all
  show ?thesis
    unfolding gpspoint_process_tag_def ke Let_def
    by (simp only: ne r1 dr df nn if_True if_False)
qed

lemma process_tag_quoted_len:
  assumes "k \<noteq> []" "EQUALS \<notin> set (tl k)" "v \<noteq> []" "hd v \<noteq> DQUOTE"
    "len = length k + length v + 3"
  shows "gpspoint_process_tag X g (k @ EQUALS # DQUOTE # v @ DQUOTE # rest) len
           = gpspoint_process_key_and_value X g (k @ EQUALS # DQUOTE # v @ DQUOTE # rest) (length k)
               (Some (v @ DQUOTE # rest)) (length v)"
  using process_tag_quoted [OF assms(1-4)] assms(5) by simp

lemma process_tag_unquoted_len:
  assumes "k \<noteq> []" "EQUALS \<notin> set (tl k)" "rd (v @ rest) 0 \<noteq> DQUOTE"
    "len = length k + 1 + length v"
  shows "gpspoint_process_tag X g (k @ EQUALS # v @ rest) len
           = gpspoint_process_key_and_value X g (k @ EQUALS # v @ rest) (length k)
               (Some (v @ rest)) (length v)"
  using process_tag_unquoted [OF assms(1-3)] assms(4) by simp

lemmas tok_eval = tokens_loop.simps skip_space_def tag_end_loop.simps cur_def rd_def isspace_def
  gpspoint_process_tag_def key_end_loop.simps dispatch_key dispatch_NULL matches_words tolower_def
  Let_def

lemmas deslash_eval = deslashndup_def deslash_count.simps deslash_copy.simps

lemmas sample_eval = sample_fields_def line_fields_init_def

section \<open>Claim C5: a quoted value of length zero\<close>

text \<open>
  Claim C5, as stated: a token \<^verbatim>\<open>key=""\<close> yields an explicit empty value, distinct
  from the field being absent.  It does not: with no name parsed so far, the token
  \<^verbatim>\<open>name=""\<close> leaves every per-line field as it was, and \<^verbatim>\<open>line_name\<close> stays NULL.
\<close>

theorem C5_empty_quoted_counterexample:
  "line_name sample_fields = None
   \<and> gpspoint_process_tag sample_collab sample_fields (''name='' @ [DQUOTE, DQUOTE]) 7
       = Some sample_fields"
  by (simp add: tok_eval sample_eval)

text \<open>
  Claim C5, amended: for a token \<^verbatim>\<open>key=""\<close> the dispatcher gets NULL as the value.
  Unless the key is \<^verbatim>\<open>type\<close> no field is stored and the per-line fields stay as they
  were, as if the token were absent; for \<^verbatim>\<open>type\<close> the record type is set to none.
\<close>

theorem C5_empty_quoted_value:
  assumes "k \<noteq> []" "EQUALS \<notin> set (tl k)"
  shows "gpspoint_process_tag X g (k @ EQUALS # DQUOTE # DQUOTE # rest) (length k + 3)
           = Some (if map tolower k = ''type'' then g\<lparr>line_type := GPSPOINT_TYPE_NONE\<rparr> else g)"
proof -
  have "matches (k @ EQUALS # DQUOTE # DQUOTE # rest) (length k) 4 ''type''
          = (map tolower k = ''type'')"
    by (auto simp: matches_words)
  then show ?thesis
    by (simp add: process_tag_empty_quoted [OF assms] dispatch_NULL)
qed

theorem C5_empty_quoted_value_witness:
  "''comment'' \<noteq> [] \<and> EQUALS \<notin> set (tl ''comment'')
   \<and> gpspoint_process_tag sample_collab sample_fields
         (''comment'' @ EQUALS # DQUOTE # DQUOTE # []) (length ''comment'' + 3)
       = Some sample_fields"
  using C5_empty_quoted_value [of "''comment''" sample_collab sample_fields "[]"]
  by (simp add: tolower_def)

section \<open>Claim C6: a key with nothing behind the equals sign\<close>

text \<open>
  Claim C6 says that a token \<^verbatim>\<open>key=\<close> is discarded and leaves the per-line fields
  unchanged.  The code dispatches it with a value of length zero that points
  behind the token: \<^verbatim>\<open>visible=\<close> clears \<^verbatim>\<open>line_visible\<close>, both when
  \<^verbatim>\<open>gpspoint_process_tag\<close> gets the token and when the tokenizer gets the line.
\<close>

theorem C6_key_equals_nothing_sets_invisible:
  "gpspoint_process_tag X g ''visible='' 8 = Some (g\<lparr>line_visible := False\<rparr>)
   \<and> tokens_loop X g ''visible='' False False = Some (g\<lparr>line_visible := False\<rparr>)"
  by (simp add: tok_eval)


section \<open>Claim C10: the new-segment and extended flags\<close>

lemma dispatch_flags_frame:
  assumes "gpspoint_process_key_and_value X g key key_len (Some v) value_len = Some g'"
  shows "line_newsegment g' = (line_newsegment g \<or> matches key key_len 10 ''newsegment'')
        \<and> line_extended g' = (line_extended g \<or> matches key key_len 8 ''extended'')"
proof (cases key key_len rule: dispatch_key_cases)
  case none
  have "g' = g" using assms dispatch_other [OF none, of X g "Some v" value_len] by simp
  moreover have "\<not> matches key key_len 10 ''newsegment''" "\<not> matches key key_len 8 ''extended''"
    using none by (simp_all add: all_keys_def)
  ultimately show ?thesis by simp
next
  case k_latitude
  then show ?thesis using assms by (auto simp: dispatch_latitude matches_words split: if_splits)
next
  case k_longitude
  then show ?thesis using assms by (auto simp: dispatch_longitude matches_words split: if_splits)
next
  case k_unixtime
  then show ?thesis using assms by (auto simp: dispatch_unixtime matches_words split: if_splits)
next
  case k_altitude
  then show ?thesis using assms by (auto simp: dispatch_altitude matches_words split: if_splits)
next
  case k_type
  then obtain t where "gpspoint_process_key_and_value X g key key_len (Some v) value_len = Some (g\<lparr>line_type := t\<rparr>)"
    using dispatch_type_ex by blast
  then show ?thesis using assms k_type by (auto simp: matches_words)
next
  case k_name
  then show ?thesis using assms by (auto simp: dispatch_name matches_words split: if_splits)
next
  case k_comment
  then show ?thesis using assms by (auto simp: dispatch_comment matches_words split: if_splits)
next
  case k_description
  then show ?thesis using assms by (auto simp: dispatch_description matches_words split: if_splits)
next
  case k_source
  then show ?thesis using assms by (auto simp: dispatch_source matches_words split: if_splits)
next
  case k_number
  then show ?thesis using assms by (auto simp: dispatch_number matches_words split: if_splits)
next
  case k_xtype
  then show ?thesis using assms by (auto simp: dispatch_xtype matches_words split: if_splits)
next
  case k_color
  then show ?thesis using assms by (auto simp: dispatch_color matches_words split: if_splits)
next
  case k_draw_name_mode
  then show ?thesis using assms by (auto simp: dispatch_draw_name_mode matches_words split: if_splits)
next
  case k_number_dist_labels
  then show ?thesis using assms by (auto simp: dispatch_number_dist_labels matches_words split: if_splits)
next
  case k_image
  then show ?thesis using assms by (auto simp: dispatch_image matches_words split: if_splits)
next
  case k_image_direction
  then show ?thesis using assms by (auto simp: dispatch_image_direction matches_words split: if_splits)
next
  case k_image_direction_ref
  then show ?thesis using assms by (auto simp: dispatch_image_direction_ref matches_words split: if_splits)
next
  case k_visible
  then show ?thesis using assms by (auto simp: dispatch_visible matches_words split: if_splits)
next
  case k_symbol
  then show ?thesis using assms by (auto simp: dispatch_symbol matches_words split: if_splits)
next
  case k_newsegment
  then show ?thesis using assms by (auto simp: dispatch_newsegment matches_words split: if_splits)
next
  case k_extended
  then show ?thesis using assms by (auto simp: dispatch_extended matches_words split: if_splits)
next
  case k_speed
  then show ?thesis using assms by (auto simp: dispatch_speed matches_words split: if_splits)
next
  case k_course
  then show ?thesis using assms by (auto simp: dispatch_course matches_words split: if_splits)
next
  case k_sat
  then show ?thesis using assms by (auto simp: dispatch_sat matches_words split: if_splits)
next
  case k_fix
  then show ?thesis using assms by (auto simp: dispatch_fix matches_words split: if_splits)
next
  case k_hdop
  then show ?thesis using assms by (auto simp: dispatch_hdop matches_words split: if_splits)
next
  case k_vdop
  then show ?thesis using assms by (auto simp: dispatch_vdop matches_words split: if_splits)
next
  case k_pdop
  then show ?thesis using assms by (auto simp: dispatch_pdop matches_words split: if_splits)
next
  case k_magvar
  then show ?thesis using assms by (auto simp: dispatch_magvar matches_words split: if_splits)
next
  case k_geoidheight
  then show ?thesis using assms by (auto simp: dispatch_geoidheight matches_words split: if_splits)
next
  case k_url
  then show ?thesis using assms by (auto simp: dispatch_url matches_words split: if_splits)
next
  case k_url_name
  then show ?thesis using assms by (auto simp: dispatch_url_name matches_words split: if_splits)
next
  case k_ageofdgpsdata
  then show ?thesis using assms by (auto simp: dispatch_ageofdgpsdata matches_words split: if_splits)
next
  case k_dgpsid
  then show ?thesis using assms by (auto simp: dispatch_dgpsid matches_words split: if_splits)
qed

text \<open>
  Claim C10: a \<^verbatim>\<open>newsegment\<close> or \<^verbatim>\<open>extended\<close> token with a value sets its flag,
  whatever the value is: quoted (and not empty), or not quoted; so do
  \<^verbatim>\<open>newsegment="no"\<close> and \<^verbatim>\<open>extended="0"\<close>.  And a dispatch that turns a flag on has
  that flag's key and a value that is not NULL, so a flag stays false when its key
  is absent or its value is absent.
\<close>

theorem C10_flags:
  "(v \<noteq> [] \<and> hd v \<noteq> DQUOTE \<longrightarrow>
      gpspoint_process_tag X g (''newsegment='' @ DQUOTE # v @ DQUOTE # rest) (length v + 13)
        = Some (g\<lparr>line_newsegment := True\<rparr>)
      \<and> gpspoint_process_tag X g (''extended='' @ DQUOTE # v @ DQUOTE # rest) (length v + 11)
        = Some (g\<lparr>line_extended := True\<rparr>))
   \<and> (rd (v @ rest) 0 \<noteq> DQUOTE \<longrightarrow>
      gpspoint_process_tag X g (''newsegment='' @ v @ rest) (length v + 11)
        = Some (g\<lparr>line_newsegment := True\<rparr>)
      \<and> gpspoint_process_tag X g (''extended='' @ v @ rest) (length v + 9)
        = Some (g\<lparr>line_extended := True\<rparr>))
   \<and> gpspoint_process_tag X g (''newsegment='' @ DQUOTE # ''no'' @ [DQUOTE]) 15
        = Some (g\<lparr>line_newsegment := True\<rparr>)
   \<and> gpspoint_process_tag X g (''extended='' @ DQUOTE # ''0'' @ [DQUOTE]) 12
        = Some (g\<lparr>line_extended := True\<rparr>)
   \<and> (gpspoint_process_key_and_value X g key key_len value value_len = Some g'
        \<and> line_newsegment g' \<and> \<not> line_newsegment g
        \<longrightarrow> matches key key_len 10 ''newsegment'' \<and> value \<noteq> None)
   \<and> (gpspoint_process_key_and_value X g key key_len value value_len = Some g'
        \<and> line_extended g' \<and> \<not> line_extended g
        \<longrightarrow> matches key key_len 8 ''extended'' \<and> value \<noteq> None)"
proof (intro conjI impI)
  assume v: "v \<noteq> [] \<and> hd v \<noteq> DQUOTE"
  show "gpspoint_process_tag X g (''newsegment='' @ DQUOTE # v @ DQUOTE # rest) (length v + 13)
        = Some (g\<lparr>line_newsegment := True\<rparr>)"
    using process_tag_quoted_len [of "''newsegment''" v "length v + 13" X g rest] v
    by (simp add: dispatch_newsegment matches_words tolower_def)
  show "gpspoint_process_tag X g (''extended='' @ DQUOTE # v @ DQUOTE # rest) (length v + 11)
        = Some (g\<lparr>line_extended := True\<rparr>)"
    using process_tag_quoted_len [of "''extended''" v "length v + 11" X g rest] v
    by (simp add: dispatch_extended matches_words tolower_def)
next
  assume v: "rd (v @ rest) 0 \<noteq> DQUOTE"
  show "gpspoint_process_tag X g (''newsegment='' @ v @ rest) (length v + 11)
        = Some (g\<lparr>line_newsegment := True\<rparr>)"
    using process_tag_unquoted_len [of "''newsegment''" v rest "length v + 11" X g] v
    by (simp add: dispatch_newsegment matches_words tolower_def)
  show "gpspoint_process_tag X g (''extended='' @ v @ rest) (length v + 9)
        = Some (g\<lparr>line_extended := True\<rparr>)"
    using process_tag_unquoted_len [of "''extended''" v rest "length v + 9" X g] v
    by (simp add: dispatch_extended matches_words tolower_def)
next
  show "gpspoint_process_tag X g (''newsegment='' @ DQUOTE # ''no'' @ [DQUOTE]) 15
        = Some (g\<lparr>line_newsegment := True\<rparr>)"
    by (simp add: tok_eval)
  show "gpspoint_process_tag X g (''extended='' @ DQUOTE # ''0'' @ [DQUOTE]) 12
        = Some (g\<lparr>line_extended := True\<rparr>)"
    by (simp add: tok_eval)
next
  assume h: "gpspoint_process_key_and_value X g key key_len value value_len = Some g'
        \<and> line_newsegment g' \<and> \<not> line_newsegment g"
  show "value \<noteq> None"
    using h by (cases "value") (auto simp: dispatch_NULL split: if_splits)
  then obtain w where w: "value = Some w" by auto
  show "matches key key_len 10 ''newsegment''"
    using h dispatch_flags_frame [of X g key key_len w value_len g'] unfolding w by simp
next
  assume h: "gpspoint_process_key_and_value X g key key_len value value_len = Some g'
        \<and> line_extended g' \<and> \<not> line_extended g"
  show "value \<noteq> None"
    using h by (cases "value") (auto simp: dispatch_NULL split: if_splits)
  then obtain w where w: "value = Some w" by auto
  show "matches key key_len 8 ''extended''"
    using h dispatch_flags_frame [of X g key key_len w value_len g'] unfolding w by simp
qed

theorem C10_flags_witness:
  "gpspoint_process_tag sample_collab sample_fields (''newsegment='' @ DQUOTE # ''false'' @ [DQUOTE]) 18
     = Some (sample_fields\<lparr>line_newsegment := True\<rparr>)
   \<and> gpspoint_process_tag sample_collab sample_fields ''extended=x'' 10
     = Some (sample_fields\<lparr>line_extended := True\<rparr>)
   \<and> matches ''newsegment=1'' 10 10 ''newsegment''"
proof -
  have a: "gpspoint_process_key_and_value sample_collab sample_fields ''newsegment=1'' 10 (Some ''1'') 1
             = Some (sample_fields\<lparr>line_newsegment := True\<rparr>)"
    by (simp add: dispatch_newsegment matches_words tolower_def)
  have b: "line_newsegment (sample_fields\<lparr>line_newsegment := True\<rparr>)" "\<not> line_newsegment sample_fields"
    by (simp_all add: sample_eval)
  show ?thesis
    using C10_flags [of "''false''" sample_collab sample_fields "[]" "''newsegment=1''" 10 "Some ''1''" 1
            "sample_fields\<lparr>line_newsegment := True\<rparr>"]
       C10_flags [of "''x''" sample_collab sample_fields "[]" "''newsegment=1''" 10 "Some ''1''" 1
            "sample_fields\<lparr>line_newsegment := True\<rparr>"] a b
    by (simp add: rd_def)
qed


end
